theory Spec2Isabelle
  imports Main
begin

section \<open>Python values as parsed by the JSON loader\<close>

text \<open>
  \<^verbatim>\<open>json.load\<close> yields \<^verbatim>\<open>None\<close>, \<^verbatim>\<open>bool\<close>, \<^verbatim>\<open>int\<close>, \<^verbatim>\<open>float\<close>,
  \<^verbatim>\<open>str\<close>, \<^verbatim>\<open>list\<close> and \<^verbatim>\<open>dict\<close> values. Text is carried as its UTF-8 bytes
  (\<^typ>\<open>string\<close>). The loader turns an unpaired surrogate escape (code points D800 to
  DFFF) into a lone surrogate, which has no UTF-8 encoding: it is carried as the three
  bytes \<^verbatim>\<open>ED\<close>, \<^verbatim>\<open>A0\<close> to \<^verbatim>\<open>BF\<close>, \<^verbatim>\<open>80\<close> to \<^verbatim>\<open>BF\<close>, with which no encoded character
  starts.
  A float is carried by the text \<^verbatim>\<open>repr\<close> prints for it, which is all the converter
  ever does with one. A \<^verbatim>\<open>dict\<close> is an association list in insertion
  order; the loader builds it with distinct keys, and \<^const>\<open>map_of\<close> reads it.
\<close>

datatype pyval =
    PNone
  | PBool bool
  | PInt int
  | PFloat string
  | PStr string
  | PList "pyval list"
  | PDict "(string \<times> pyval) list"

datatype py_error =
    TypeError
  | AttributeError
  | KeyError
  | ValueError
  | OSError
  | JSONDecodeError
  | UnicodeEncodeError

text \<open>\<^verbatim>\<open>d.get(k, default)\<close> on a \<^verbatim>\<open>dict\<close>.\<close>

definition dget :: "(string \<times> pyval) list \<Rightarrow> string \<Rightarrow> pyval \<Rightarrow> pyval" where
  "dget d k dflt = (case map_of d k of Some v \<Rightarrow> v | None \<Rightarrow> dflt)"

section \<open>The row built for one result (lines 82 to 104)\<close>

text \<open>
  Only a \<^verbatim>\<open>dict\<close> has a \<^verbatim>\<open>get\<close> method: on any other value the first lookup raises
  \<^verbatim>\<open>AttributeError\<close>. The row is the dict literal of the source, key by key.
\<close>

fun make_row :: "pyval \<Rightarrow> pyval \<Rightarrow> pyval \<Rightarrow> py_error + (string \<times> pyval) list" where
  "make_row event_key pen (PDict result) = Inr
     [(''EventKey'', dget result ''EventKey'' (dget result ''event_key'' event_key)),
      (''Pen'', dget result ''Pen'' (dget result ''pen'' pen)),
      (''Position'', dget result ''Position'' (dget result ''position'' (PStr ''''))),
      (''Name'', dget result ''Name'' (dget result ''name'' (PStr ''''))),
      (''Team'', dget result ''Team'' (dget result ''team'' (PStr ''''))),
      (''Country'', dget result ''Country'' (dget result ''country'' (PStr ''''))),
      (''Time'', dget result ''Time'' (dget result ''time'' (PInt 0))),
      (''DeltaTime'', dget result ''DeltaTime'' (dget result ''delta_time'' (PInt 0))),
      (''Distance'', dget result ''Distance'' (dget result ''distance'' (PFloat ''32417.966''))),
      (''DeltaDistance'', dget result ''DeltaDistance'' (dget result ''delta_distance'' (PInt 0))),
      (''Points'', dget result ''Points'' (dget result ''points'' (PInt 0))),
      (''Gender'', dget result ''Gender'' (dget result ''gender'' (PStr ''''))),
      (''UID'', dget result ''UID'' (dget result ''uid'' (dget result ''user_id'' (PStr '''')))),
      (''ARR'', dget result ''ARR'' (dget result ''arr'' (PStr ''''))),
      (''ARRBand'', dget result ''ARRBand'' (dget result ''arr_band'' (PStr ''''))),
      (''EventRating'', dget result ''EventRating'' (dget result ''event_rating'' (PStr ''''))),
      (''EventRatingBand'',
         dget result ''EventRatingBand'' (dget result ''event_rating_band'' (PStr ''''))),
      (''AgeBand'', dget result ''AgeBand'' (dget result ''age_band'' (PStr ''''))),
      (''NGB'', dget result ''NGB'' (dget result ''ngb'' (PStr ''''))),
      (''NGB ID'', dget result ''NGB ID'' (dget result ''ngb_id'' (PStr ''''))),
      (''UCI ID'', dget result ''UCI ID'' (dget result ''uci_id'' (PStr '''')))]"
| "make_row event_key pen _ = Inl AttributeError"

subsection \<open>The alias table of the specification\<close>

text \<open>
  The specification's field alias table, row by row: output field, alternate keys in the
  order they are tried, default. It is written from the specification's words and is
  compared with \<^const>\<open>make_row\<close> below.
\<close>

definition spec_alias_table :: "pyval \<Rightarrow> pyval \<Rightarrow> (string \<times> string list \<times> pyval) list" where
  "spec_alias_table doc_event_key doc_pen =
     [(''EventKey'', [''event_key''], doc_event_key),
      (''Pen'', [''pen''], doc_pen),
      (''Position'', [''position''], PStr ''''),
      (''Name'', [''name''], PStr ''''),
      (''Team'', [''team''], PStr ''''),
      (''Country'', [''country''], PStr ''''),
      (''Time'', [''time''], PInt 0),
      (''DeltaTime'', [''delta_time''], PInt 0),
      (''Distance'', [''distance''], PFloat ''32417.966''),
      (''DeltaDistance'', [''delta_distance''], PInt 0),
      (''Points'', [''points''], PInt 0),
      (''Gender'', [''gender''], PStr ''''),
      (''UID'', [''uid'', ''user_id''], PStr ''''),
      (''ARR'', [''arr''], PStr ''''),
      (''ARRBand'', [''arr_band''], PStr ''''),
      (''EventRating'', [''event_rating''], PStr ''''),
      (''EventRatingBand'', [''event_rating_band''], PStr ''''),
      (''AgeBand'', [''age_band''], PStr ''''),
      (''NGB'', [''ngb''], PStr ''''),
      (''NGB ID'', [''ngb_id''], PStr ''''),
      (''UCI ID'', [''uci_id''], PStr '''')]"

text \<open>The first candidate key present in the record decides; with none present, the default.\<close>

fun spec_resolve :: "(string \<times> pyval) list \<Rightarrow> string list \<Rightarrow> pyval \<Rightarrow> pyval" where
  "spec_resolve r [] dflt = dflt"
| "spec_resolve r (k # ks) dflt =
     (case map_of r k of Some v \<Rightarrow> v | None \<Rightarrow> spec_resolve r ks dflt)"

definition spec_row :: "pyval \<Rightarrow> pyval \<Rightarrow> (string \<times> pyval) list \<Rightarrow> (string \<times> pyval) list" where
  "spec_row doc_event_key doc_pen r =
     map (\<lambda>(field, alts, dflt). (field, spec_resolve r (field # alts) dflt))
       (spec_alias_table doc_event_key doc_pen)"

section \<open>Truth value, membership, subscript and attribute access\<close>

text \<open>\<^verbatim>\<open>not results\<close> is the negation of the truth value of \<^verbatim>\<open>results\<close>.\<close>

fun truthy :: "pyval \<Rightarrow> bool" where
  "truthy PNone = False"
| "truthy (PBool b) = b"
| "truthy (PInt i) = (i \<noteq> 0)"
| "truthy (PFloat r) = (r \<noteq> ''0.0'' \<and> r \<noteq> ''-0.0'')"
| "truthy (PStr s) = (s \<noteq> [])"
| "truthy (PList xs) = (xs \<noteq> [])"
| "truthy (PDict kvs) = (kvs \<noteq> [])"

fun starts_with :: "string \<Rightarrow> string \<Rightarrow> bool" where
  "starts_with [] s = True"
| "starts_with (c # cs) [] = False"
| "starts_with (c # cs) (d # ds) = (c = d \<and> starts_with cs ds)"

fun substring_of :: "string \<Rightarrow> string \<Rightarrow> bool" where
  "substring_of sub [] = (sub = [])"
| "substring_of sub (c # cs) = (starts_with sub (c # cs) \<or> substring_of sub cs)"

text \<open>
  \<^verbatim>\<open>k in data\<close> for a text \<^verbatim>\<open>k\<close>: key membership on a \<^verbatim>\<open>dict\<close>, element
  membership on a \<^verbatim>\<open>list\<close>, substring test on a \<^verbatim>\<open>str\<close>; the other values are no
  containers and the operator raises \<^verbatim>\<open>TypeError\<close>.
\<close>

fun py_contains :: "string \<Rightarrow> pyval \<Rightarrow> py_error + bool" where
  "py_contains k (PDict kvs) = Inr (map_of kvs k \<noteq> None)"
| "py_contains k (PList xs) = Inr (PStr k \<in> set xs)"
| "py_contains k (PStr s) = Inr (substring_of k s)"
| "py_contains k _ = Inl TypeError"

text \<open>\<^verbatim>\<open>data[k]\<close> for a text \<^verbatim>\<open>k\<close>: only a \<^verbatim>\<open>dict\<close> takes a text subscript.\<close>

fun py_getitem :: "pyval \<Rightarrow> string \<Rightarrow> py_error + pyval" where
  "py_getitem (PDict kvs) k = (case map_of kvs k of Some v \<Rightarrow> Inr v | None \<Rightarrow> Inl KeyError)"
| "py_getitem _ k = Inl TypeError"

text \<open>\<^verbatim>\<open>data.get(k, default)\<close> on any value: only a \<^verbatim>\<open>dict\<close> has the method.\<close>

fun py_get :: "pyval \<Rightarrow> string \<Rightarrow> pyval \<Rightarrow> py_error + pyval" where
  "py_get (PDict kvs) k dflt = Inr (dget kvs k dflt)"
| "py_get _ k dflt = Inl AttributeError"

text \<open>\<^verbatim>\<open>data.get(k1, data.get(k2, default))\<close>: the inner call is evaluated first.\<close>

definition py_get2 :: "pyval \<Rightarrow> string \<Rightarrow> string \<Rightarrow> pyval \<Rightarrow> py_error + pyval" where
  "py_get2 data k1 k2 dflt =
     (case py_get data k2 dflt of Inl e \<Rightarrow> Inl e | Inr d \<Rightarrow> py_get data k1 d)"

section \<open>The three shapes of the document (lines 35 to 48)\<close>

text \<open>Lines 37 and 38, and again 46 and 47: event key and pen of the document root.\<close>

definition header_values :: "pyval \<Rightarrow> py_error + (pyval \<times> pyval)" where
  "header_values data =
     (case py_get2 data ''event_key'' ''EventKey'' (PStr ''88000'') of
        Inl e \<Rightarrow> Inl e
      | Inr event_key \<Rightarrow>
          (case py_get2 data ''pen'' ''Pen'' (PStr ''1'') of
             Inl e \<Rightarrow> Inl e
           | Inr pen \<Rightarrow> Inr (event_key, pen)))"

text \<open>The result is \<^verbatim>\<open>(results, event_key, pen)\<close>, or the exception raised on the way.\<close>

definition locate_results :: "pyval \<Rightarrow> py_error + (pyval \<times> pyval \<times> pyval)" where
  "locate_results data =
     (case py_contains ''results'' data of
        Inl e \<Rightarrow> Inl e
      | Inr has_results \<Rightarrow>
          if has_results then
            (case py_getitem data ''results'' of
               Inl e \<Rightarrow> Inl e
             | Inr results \<Rightarrow>
                 (case header_values data of
                    Inl e \<Rightarrow> Inl e
                  | Inr (event_key, pen) \<Rightarrow> Inr (results, event_key, pen)))
          else
            (case data of
               PList xs \<Rightarrow> Inr (data, PStr ''88000'', PStr ''1'')
             | _ \<Rightarrow>
                 (case header_values data of
                    Inl e \<Rightarrow> Inl e
                  | Inr (event_key, pen) \<Rightarrow> Inr (PList [data], event_key, pen))))"

section \<open>Text of a value, time stamp, file name (lines 58 and 59)\<close>

definition digit_char :: "nat \<Rightarrow> char" where
  "digit_char d = ''0123456789'' ! d"

fun dec_nat :: "nat \<Rightarrow> string" where
  "dec_nat n = (if n < 10 then [digit_char n] else dec_nat (n div 10) @ [digit_char (n mod 10)])"

declare dec_nat.simps [simp del]

definition dec_int :: "int \<Rightarrow> string" where
  "dec_int i = (if i < 0 then CHR ''-'' # dec_nat (nat (- i)) else dec_nat (nat i))"

text \<open>
  \<^verbatim>\<open>str(v)\<close>, which is also what an f-string field prints. The text of a \<^verbatim>\<open>list\<close> or a
  \<^verbatim>\<open>dict\<close> is the interpreter's \<^verbatim>\<open>repr\<close>; it is taken as the parameter \<open>cstr\<close>.
\<close>

fun py_str :: "(pyval \<Rightarrow> string) \<Rightarrow> pyval \<Rightarrow> string" where
  "py_str cstr PNone = ''None''"
| "py_str cstr (PBool b) = (if b then ''True'' else ''False'')"
| "py_str cstr (PInt i) = dec_int i"
| "py_str cstr (PFloat r) = r"
| "py_str cstr (PStr s) = s"
| "py_str cstr (PList xs) = cstr (PList xs)"
| "py_str cstr (PDict kvs) = cstr (PDict kvs)"

record datetime =
  dt_year :: nat
  dt_month :: nat
  dt_day :: nat
  dt_hour :: nat
  dt_minute :: nat
  dt_second :: nat

definition zero_pad :: "nat \<Rightarrow> nat \<Rightarrow> string" where
  "zero_pad w n = replicate (w - length (dec_nat n)) CHR ''0'' @ dec_nat n"

text \<open>\<^verbatim>\<open>strftime('%Y%m%d_%H%M%S')\<close>.\<close>

definition strftime :: "datetime \<Rightarrow> string" where
  "strftime t =
     zero_pad 4 (dt_year t) @ zero_pad 2 (dt_month t) @ zero_pad 2 (dt_day t) @ ''_'' @
     zero_pad 2 (dt_hour t) @ zero_pad 2 (dt_minute t) @ zero_pad 2 (dt_second t)"

text \<open>The f-string of line 59: the last component of the output path.\<close>

definition output_name :: "(pyval \<Rightarrow> string) \<Rightarrow> pyval \<Rightarrow> pyval \<Rightarrow> string \<Rightarrow> string" where
  "output_name cstr event_key pen timestamp =
     ''TPVirtual-Results-Event'' @ py_str cstr event_key @ ''-Pen'' @ py_str cstr pen @
     ''-'' @ timestamp @ ''.csv''"

section \<open>The CSV writer (lines 76, 77 and 106)\<close>

definition LF :: char where "LF = CHR 0x0A"
definition CR :: char where "CR = CHR 0x0D"
definition DQ :: char where "DQ = CHR 0x22"

definition fieldnames :: "string list" where
  "fieldnames =
     [''EventKey'', ''Pen'', ''Position'', ''Name'', ''Team'', ''Country'', ''Time'',
      ''DeltaTime'', ''Distance'', ''DeltaDistance'', ''Points'', ''Gender'', ''UID'',
      ''ARR'', ''ARRBand'', ''EventRating'', ''EventRatingBand'', ''AgeBand'',
      ''NGB'', ''NGB ID'', ''UCI ID'']"

text \<open>
  The writer is \<^verbatim>\<open>csv.writer\<close> in its default dialect (delimiter comma, quote character
  the double quote, doubled when it occurs in a field, line terminator CR LF) with
  \<^verbatim>\<open>QUOTE_NONNUMERIC\<close>: a field is quoted unless the value is a number for the
  interpreter, which \<^verbatim>\<open>int\<close>, \<^verbatim>\<open>float\<close> and \<^verbatim>\<open>bool\<close> are. \<^verbatim>\<open>None\<close> is written as the
  empty text, every other value as its \<^verbatim>\<open>str\<close>. An unquoted field whose text holds the
  delimiter, the quote character or a character of the line terminator is quoted all the
  same.
\<close>

fun is_number :: "pyval \<Rightarrow> bool" where
  "is_number (PInt i) = True"
| "is_number (PFloat r) = True"
| "is_number (PBool b) = True"
| "is_number _ = False"

fun field_text :: "(pyval \<Rightarrow> string) \<Rightarrow> pyval \<Rightarrow> string" where
  "field_text cstr PNone = []"
| "field_text cstr v = py_str cstr v"

definition csv_special :: "char \<Rightarrow> bool" where
  "csv_special c = (c = CHR '','' \<or> c = DQ \<or> c = CR \<or> c = LF)"

fun double_quotes :: "string \<Rightarrow> string" where
  "double_quotes [] = []"
| "double_quotes (c # cs) = (if c = DQ then DQ # DQ # double_quotes cs else c # double_quotes cs)"

definition field_quoted :: "(pyval \<Rightarrow> string) \<Rightarrow> pyval \<Rightarrow> bool" where
  "field_quoted cstr v = (\<not> is_number v \<or> list_ex csv_special (field_text cstr v))"

definition csv_field :: "(pyval \<Rightarrow> string) \<Rightarrow> pyval \<Rightarrow> string" where
  "csv_field cstr v =
     (if field_quoted cstr v then DQ # double_quotes (field_text cstr v) @ [DQ]
      else field_text cstr v)"

fun join_fields :: "string list \<Rightarrow> string" where
  "join_fields [] = []"
| "join_fields [f] = f"
| "join_fields (f # g # fs) = f @ CHR '','' # join_fields (g # fs)"

text \<open>\<^verbatim>\<open>writer.writerow(values)\<close>: the text handed to the file in one \<^verbatim>\<open>write\<close>.\<close>

definition csv_writerow :: "(pyval \<Rightarrow> string) \<Rightarrow> pyval list \<Rightarrow> string" where
  "csv_writerow cstr vs = join_fields (map (csv_field cstr) vs) @ [CR, LF]"

text \<open>
  \<^verbatim>\<open>DictWriter.writerow(row)\<close>: a key of the row outside the field names raises
  \<^verbatim>\<open>ValueError\<close>; a field name the row lacks is written as the empty text.
\<close>

definition dictwriter_writerow ::
    "(pyval \<Rightarrow> string) \<Rightarrow> (string \<times> pyval) list \<Rightarrow> py_error + string" where
  "dictwriter_writerow cstr row =
     (if list_ex (\<lambda>k. k \<notin> set fieldnames) (map fst row) then Inl ValueError
      else Inr (csv_writerow cstr (map (\<lambda>k. dget row k (PStr [])) fieldnames)))"

definition writeheader :: "(pyval \<Rightarrow> string) \<Rightarrow> py_error + string" where
  "writeheader cstr = dictwriter_writerow cstr (map (\<lambda>k. (k, PStr k)) fieldnames)"

section \<open>Writing the file (lines 62 to 106)\<close>

text \<open>
  The file is opened with the encoding \<^verbatim>\<open>utf-8-sig\<close> and the default, strict, error
  handling: a \<^verbatim>\<open>write\<close> encodes its whole text first and raises
  \<^verbatim>\<open>UnicodeEncodeError\<close>, writing nothing, when the text holds a lone surrogate.
\<close>

fun has_surrogate :: "string \<Rightarrow> bool" where
  "has_surrogate (c # d # cs) =
     ((c = CHR 0xED \<and> (0xA0 :: nat) \<le> of_char d \<and> (of_char d :: nat) \<le> 0xBF) \<or>
      has_surrogate (d # cs))"
| "has_surrogate _ = False"

definition file_write :: "string \<Rightarrow> py_error + string" where
  "file_write s = (if has_surrogate s then Inl UnicodeEncodeError else Inr s)"

text \<open>Lines 82 to 106 for one result: the row, then the writer.\<close>

definition row_text :: "(pyval \<Rightarrow> string) \<Rightarrow> pyval \<Rightarrow> pyval \<Rightarrow> pyval \<Rightarrow> py_error + string" where
  "row_text cstr event_key pen result =
     (case make_row event_key pen result of
        Inl e \<Rightarrow> Inl e
      | Inr row \<Rightarrow> dictwriter_writerow cstr row)"

text \<open>
  The loop of line 80 over a list: the texts written, in order, and the exception that
  ended the loop, if any. The writer hands the text of the row to the \<^verbatim>\<open>write\<close> of the
  file (line 106).
\<close>

fun write_rows ::
    "(pyval \<Rightarrow> string) \<Rightarrow> pyval \<Rightarrow> pyval \<Rightarrow> pyval list \<Rightarrow> string list \<times> py_error option" where
  "write_rows cstr event_key pen [] = ([], None)"
| "write_rows cstr event_key pen (result # rest) =
     (case row_text cstr event_key pen result of
        Inl e \<Rightarrow> ([], Some e)
      | Inr line \<Rightarrow>
          (case file_write line of
             Inl e \<Rightarrow> ([], Some e)
           | Inr written \<Rightarrow>
               (case write_rows cstr event_key pen rest of
                  (ls, err) \<Rightarrow> (written # ls, err))))"

text \<open>
  What \<^verbatim>\<open>for result in results\<close> iterates over: the elements of a \<^verbatim>\<open>list\<close>, the keys
  of a \<^verbatim>\<open>dict\<close>, the characters of a \<^verbatim>\<open>str\<close>; any other value is not iterable.
\<close>

fun py_iter :: "pyval \<Rightarrow> py_error + pyval list" where
  "py_iter (PList xs) = Inr xs"
| "py_iter (PDict kvs) = Inr (map (\<lambda>kv. PStr (fst kv)) kvs)"
| "py_iter (PStr s) = Inr (map (\<lambda>c. PStr [c]) s)"
| "py_iter _ = Inl TypeError"

definition banner :: string where
  "banner = ''OVERALL INDIVIDUAL RESULTS:'' @ [LF]"

text \<open>
  The body of the \<^verbatim>\<open>with\<close> block: the texts written to the file, one per \<^verbatim>\<open>write\<close>,
  and the exception that left the block, if any.
\<close>

definition write_csv ::
    "(pyval \<Rightarrow> string) \<Rightarrow> pyval \<Rightarrow> pyval \<Rightarrow> pyval \<Rightarrow> string list \<times> py_error option" where
  "write_csv cstr event_key pen results =
     (case file_write banner of
        Inl e \<Rightarrow> ([], Some e)
      | Inr title \<Rightarrow>
     (case file_write [LF] of
        Inl e \<Rightarrow> ([title], Some e)
      | Inr blank \<Rightarrow>
     (case writeheader cstr of
        Inl e \<Rightarrow> ([title, blank], Some e)
      | Inr header_text \<Rightarrow>
     (case file_write header_text of
        Inl e \<Rightarrow> ([title, blank], Some e)
      | Inr header \<Rightarrow>
     (case py_iter results of
        Inl e \<Rightarrow> ([title, blank, header], Some e)
      | Inr items \<Rightarrow>
     (case write_rows cstr event_key pen items of
        (ls, err) \<Rightarrow> ([title, blank, header] @ ls, err)))))))"

text \<open>
  The file is opened with an empty \<^verbatim>\<open>newline\<close>, so no line end is translated, and the
  encoder puts the byte order mark before the first text it encodes.
\<close>

definition BOM :: string where
  "BOM = [CHR 0xEF, CHR 0xBB, CHR 0xBF]"

fun utf8_sig :: "string list \<Rightarrow> string" where
  "utf8_sig [] = []"
| "utf8_sig (w # ws) = BOM @ concat (w # ws)"

section \<open>The converter and the entry point\<close>

text \<open>
  The world outside the program: which paths exist, what opening and parsing the input
  gives, whether the folder and the output file can be made, the clock, the text of a
  container, the text of a path made of a folder and a name, and which texts the
  standard output can encode. The last is asked for the message of line 108, the one
  message whose literal leaves ASCII: it starts with the check mark U+2713, and
  \<^verbatim>\<open>print\<close> raises \<^verbatim>\<open>UnicodeEncodeError\<close> on a standard output that cannot encode it.
\<close>

record env =
  path_exists :: "string \<Rightarrow> bool"
  load_json :: "string \<Rightarrow> py_error + pyval"
  mkdir_error :: "string \<Rightarrow> py_error option"
  open_error :: "string \<Rightarrow> string \<Rightarrow> py_error option"
  now :: datetime
  container_str :: "pyval \<Rightarrow> string"
  path_str :: "string \<Rightarrow> string \<Rightarrow> string"
  stdout_encodes :: "string \<Rightarrow> bool"

text \<open>
  What the program does to the world, in order. \<open>Written folder name bytes\<close> is the
  output file as it stands when the \<^verbatim>\<open>with\<close> block is left.
\<close>

datatype event =
    Print string
  | PathExists string
  | LoadJson string
  | Mkdir string
  | OpenWrite string string
  | Written string string string

datatype outcome = Returned "string option" | Raised py_error

text \<open>
  \<^verbatim>\<open>len(results)\<close>. The converter reaches it only after the loop has ended without an
  exception, which it does on a \<^verbatim>\<open>list\<close> alone.
\<close>

fun py_len :: "pyval \<Rightarrow> py_error + nat" where
  "py_len (PList xs) = Inr (length xs)"
| "py_len (PDict kvs) = Inr (length kvs)"
| "py_len (PStr s) = Inr (length s)"
| "py_len _ = Inl TypeError"

definition check_mark :: string where
  "check_mark = [CHR 0xE2, CHR 0x9C, CHR 0x93]"

definition json_to_csv :: "env \<Rightarrow> string \<Rightarrow> string \<Rightarrow> outcome \<times> event list" where
  "json_to_csv E json_file_path output_folder =
     (case load_json E json_file_path of
        Inl e \<Rightarrow> (Raised e, [LoadJson json_file_path])
      | Inr data \<Rightarrow>
     (case locate_results data of
        Inl e \<Rightarrow> (Raised e, [LoadJson json_file_path])
      | Inr (results, event_key, pen) \<Rightarrow>
     if \<not> truthy results then
       (Returned None, [LoadJson json_file_path, Print ''No results found in JSON data''])
     else
     (case mkdir_error E output_folder of
        Some e \<Rightarrow> (Raised e, [LoadJson json_file_path, Mkdir output_folder])
      | None \<Rightarrow>
     let timestamp = strftime (now E);
         name = output_name (container_str E) event_key pen timestamp
     in
     (case open_error E output_folder name of
        Some e \<Rightarrow>
          (Raised e,
           [LoadJson json_file_path, Mkdir output_folder, OpenWrite output_folder name])
      | None \<Rightarrow>
     (case write_csv (container_str E) event_key pen results of
        (ws, err) \<Rightarrow>
     let done = [LoadJson json_file_path, Mkdir output_folder, OpenWrite output_folder name,
                 Written output_folder name (utf8_sig ws)]
     in
     (case err of
        Some e \<Rightarrow> (Raised e, done)
      | None \<Rightarrow>
     let message = check_mark @ '' Converted JSON to CSV: '' @ path_str E output_folder name
     in
     if \<not> stdout_encodes E message then (Raised UnicodeEncodeError, done)
     else
     (case py_len results of
        Inl e \<Rightarrow> (Raised e, done @ [Print message])
      | Inr n \<Rightarrow>
          (Returned (Some (path_str E output_folder name)),
           done @ [Print message,
                   Print (''  - '' @ dec_nat n @ '' results processed'')]))))))))"

datatype exit_status = Exit nat | Uncaught py_error

definition usage :: string where
  "usage = ''Usage: python json_to_csv.py <json_file> <output_folder>''"

definition main :: "env \<Rightarrow> string list \<Rightarrow> exit_status \<times> event list" where
  "main E argv =
     (if length argv < 3 then (Exit 1, [Print usage])
      else
        let json_file = argv ! 1; output_folder = argv ! 2 in
        if \<not> path_exists E json_file then
          (Exit 1, [PathExists json_file, Print (''Error: JSON file not found: '' @ json_file)])
        else
          (case json_to_csv E json_file output_folder of
             (Returned r, evs) \<Rightarrow> (Exit 0, PathExists json_file # evs)
           | (Raised e, evs) \<Rightarrow> (Uncaught e, PathExists json_file # evs)))"

section \<open>A sample world\<close>

text \<open>
  A world in which the input file \<^verbatim>\<open>in.json\<close> holds the document \<open>doc\<close>, every folder
  and file can be made, the standard output encodes every text, and the clock reads
  2026-11-04 17:53:09. The theorems below hold in every world; this one serves to run
  them on examples.
\<close>

definition example_env :: "pyval \<Rightarrow> env" where
  "example_env doc =
     \<lparr>path_exists = (\<lambda>p. p = ''in.json''),
      load_json = (\<lambda>p. if p = ''in.json'' then Inr doc else Inl OSError),
      mkdir_error = (\<lambda>folder. None),
      open_error = (\<lambda>folder name. None),
      now = \<lparr>dt_year = 2026, dt_month = 11, dt_day = 4,
              dt_hour = 17, dt_minute = 53, dt_second = 9\<rparr>,
      container_str = (\<lambda>v. ''[]''),
      path_str = (\<lambda>folder name. folder @ ''/'' @ name),
      stdout_encodes = (\<lambda>s. True)\<rparr>"

section \<open>Field lookup\<close>

lemma spec_resolve_two: "spec_resolve r [k, k'] d = dget r k (dget r k' d)"
  by (simp add: dget_def split: option.split)

lemma spec_resolve_three:
  "spec_resolve r [k, k', k''] d = dget r k (dget r k' (dget r k'' d))"
  by (simp add: dget_def split: option.split)

lemma make_row_spec_row: "make_row ek pen (PDict r) = Inr (spec_row ek pen r)"
  unfolding spec_row_def spec_alias_table_def
  by (simp only: make_row.simps list.map prod.case spec_resolve_two spec_resolve_three)

lemma distinct_table: "distinct (map fst (spec_alias_table ek pen))"
  by (simp add: spec_alias_table_def)

lemma fst_spec_row: "map fst (spec_row ek pen r) = fieldnames"
  by (simp add: spec_row_def spec_alias_table_def fieldnames_def)

lemma map_of_resolved:
  "distinct (map fst t) \<Longrightarrow> (f, alts, d) \<in> set t \<Longrightarrow>
   map_of (map (\<lambda>(f, alts, d). (f, h f alts d)) t) f = Some (h f alts d)"
  by (induction t) (auto simp: rev_image_eqI)

lemma spec_row_lookup:
  assumes "(f, alts, d) \<in> set (spec_alias_table ek pen)"
  shows "map_of (spec_row ek pen r) f = Some (spec_resolve r (f # alts) d)"
  unfolding spec_row_def
  using map_of_resolved [OF distinct_table assms, of "\<lambda>f alts d. spec_resolve r (f # alts) d"]
  by simp

text \<open>
  Claim C1. For a result that is a mapping, the row the converter builds is the row of the
  specification's alias table: each of the 21 fields is the value of the first key
  present among the PascalCase key, then the alternate keys in their order (for UID:
  uid, then user_id), and the field's default when none is present (the document's
  event key and pen, the empty text, 0 for Time, DeltaTime, DeltaDistance and Points,
  32417.966 for Distance). Every field has a value, and a PascalCase key that is
  present decides the field whatever the other spellings hold.
\<close>

theorem field_lookup_order:
  "make_row ek pen (PDict r) = Inr (spec_row ek pen r) \<and>
   map fst (spec_row ek pen r) = fieldnames \<and>
   length fieldnames = 21 \<and>
   (\<forall>(f, alts, d) \<in> set (spec_alias_table ek pen).
      map_of (spec_row ek pen r) f = Some (spec_resolve r (f # alts) d) \<and>
      (\<forall>v. map_of r f = Some v \<longrightarrow> map_of (spec_row ek pen r) f = Some v))"
proof -
  have "length fieldnames = 21" by (simp add: fieldnames_def)
  moreover have "\<forall>(f, alts, d) \<in> set (spec_alias_table ek pen).
      map_of (spec_row ek pen r) f = Some (spec_resolve r (f # alts) d) \<and>
      (\<forall>v. map_of r f = Some v \<longrightarrow> map_of (spec_row ek pen r) f = Some v)"
    using spec_row_lookup by fastforce
  ultimately show ?thesis
    using make_row_spec_row fst_spec_row by simp
qed


theorem field_lookup_order_witness:
  "make_row (PInt 88022) (PInt 3) (PDict [(''Name'', PStr ''Ann''), (''name'', PStr ''bob''), (''user_id'', PInt 7)]) =
     Inr (spec_row (PInt 88022) (PInt 3) [(''Name'', PStr ''Ann''), (''name'', PStr ''bob''), (''user_id'', PInt 7)]) \<and>
   map_of (spec_row (PInt 88022) (PInt 3) [(''Name'', PStr ''Ann''), (''name'', PStr ''bob''), (''user_id'', PInt 7)]) ''Name''
     = Some (PStr ''Ann'') \<and>
   map_of (spec_row (PInt 88022) (PInt 3) [(''Name'', PStr ''Ann''), (''name'', PStr ''bob''), (''user_id'', PInt 7)]) ''UID''
     = Some (PInt 7) \<and>
   map_of (spec_row (PInt 88022) (PInt 3) [(''Name'', PStr ''Ann''), (''name'', PStr ''bob''), (''user_id'', PInt 7)]) ''EventKey''
     = Some (PInt 88022) \<and>
   map_of (spec_row (PInt 88022) (PInt 3) [(''Name'', PStr ''Ann''), (''name'', PStr ''bob''), (''user_id'', PInt 7)]) ''Distance''
     = Some (PFloat ''32417.966'')"
  using field_lookup_order [of "PInt 88022" "PInt 3"
      "[(''Name'', PStr ''Ann''), (''name'', PStr ''bob''), (''user_id'', PInt 7)]"]
  by (simp add: spec_alias_table_def)

lemma header_values_dict:
  "header_values (PDict kvs) =
     Inr (dget kvs ''event_key'' (dget kvs ''EventKey'' (PStr ''88000'')),
          dget kvs ''pen'' (dget kvs ''Pen'' (PStr ''1'')))"
  by (simp add: header_values_def py_get2_def)

lemma locate_results_key:
  "map_of kvs ''results'' = Some rs \<Longrightarrow>
   locate_results (PDict kvs) =
     Inr (rs, dget kvs ''event_key'' (dget kvs ''EventKey'' (PStr ''88000'')),
          dget kvs ''pen'' (dget kvs ''Pen'' (PStr ''1'')))"
  by (simp add: locate_results_def header_values_dict)

lemma locate_results_list:
  "PStr ''results'' \<notin> set xs \<Longrightarrow>
   locate_results (PList xs) = Inr (PList xs, PStr ''88000'', PStr ''1'')"
  by (simp add: locate_results_def)

lemma locate_results_list_fails:
  "PStr ''results'' \<in> set xs \<Longrightarrow> locate_results (PList xs) = Inl TypeError"
  by (simp add: locate_results_def)

lemma locate_results_single:
  "map_of kvs ''results'' = None \<Longrightarrow>
   locate_results (PDict kvs) =
     Inr (PList [PDict kvs], dget kvs ''event_key'' (dget kvs ''EventKey'' (PStr ''88000'')),
          dget kvs ''pen'' (dget kvs ''Pen'' (PStr ''1'')))"
  by (simp add: locate_results_def header_values_dict)

text \<open>
  Claim C2. A document with a top-level results key gives that key's value as the record
  list, with event key and pen read from the root (event_key, then EventKey; pen, then
  Pen), ''88000'' and ''1'' when neither spelling is present. A root object without the
  key is wrapped into a one-element list, event key and pen read the same way. A root
  that is a sequence of records is the record list itself, with event key ''88000'' and
  pen ''1''.
\<close>

theorem document_shapes:
  "(map_of kvs ''results'' = Some rs \<longrightarrow>
      locate_results (PDict kvs) =
        Inr (rs, dget kvs ''event_key'' (dget kvs ''EventKey'' (PStr ''88000'')),
             dget kvs ''pen'' (dget kvs ''Pen'' (PStr ''1'')))) \<and>
   (map_of kvs ''results'' = None \<longrightarrow>
      locate_results (PDict kvs) =
        Inr (PList [PDict kvs],
             dget kvs ''event_key'' (dget kvs ''EventKey'' (PStr ''88000'')),
             dget kvs ''pen'' (dget kvs ''Pen'' (PStr ''1'')))) \<and>
   ((\<forall>x \<in> set xs. \<exists>r. x = PDict r) \<longrightarrow>
      locate_results (PList xs) = Inr (PList xs, PStr ''88000'', PStr ''1'')) \<and>
   (map_of kvs ''event_key'' = None \<and> map_of kvs ''EventKey'' = None \<longrightarrow>
      dget kvs ''event_key'' (dget kvs ''EventKey'' (PStr ''88000'')) = PStr ''88000'') \<and>
   (map_of kvs ''pen'' = None \<and> map_of kvs ''Pen'' = None \<longrightarrow>
      dget kvs ''pen'' (dget kvs ''Pen'' (PStr ''1'')) = PStr ''1'')"
proof -
  have "(\<forall>x \<in> set xs. \<exists>r. x = PDict r) \<longrightarrow> PStr ''results'' \<notin> set xs"
    by auto
  then show ?thesis
    using locate_results_key locate_results_single locate_results_list
    by (simp add: dget_def)
qed

theorem document_shapes_witness:
  "locate_results (PDict [(''event_key'', PInt 88022), (''pen'', PInt 3),
      (''results'', PList [PDict [(''position'', PInt 1), (''name'', PStr ''A. Runner'')]])]) =
     Inr (PList [PDict [(''position'', PInt 1), (''name'', PStr ''A. Runner'')]], PInt 88022, PInt 3) \<and>
   locate_results (PDict [(''results'', PList [])]) = Inr (PList [], PStr ''88000'', PStr ''1'') \<and>
   locate_results (PDict [(''Pen'', PStr ''2''), (''name'', PStr ''X'')]) =
     Inr (PList [PDict [(''Pen'', PStr ''2''), (''name'', PStr ''X'')]], PStr ''88000'', PStr ''2'') \<and>
   locate_results (PList [PDict [(''name'', PStr ''X'')], PDict [(''name'', PStr ''Y'')]]) =
     Inr (PList [PDict [(''name'', PStr ''X'')], PDict [(''name'', PStr ''Y'')]],
          PStr ''88000'', PStr ''1'')"
  using
    document_shapes [of "[(''event_key'', PInt 88022), (''pen'', PInt 3),
      (''results'', PList [PDict [(''position'', PInt 1), (''name'', PStr ''A. Runner'')]])]"
      "PList [PDict [(''position'', PInt 1), (''name'', PStr ''A. Runner'')]]"
      "[PDict [(''name'', PStr ''X'')], PDict [(''name'', PStr ''Y'')]]"]
    document_shapes [of "[(''results'', PList [])]" "PList []" "[]"]
    document_shapes [of "[(''Pen'', PStr ''2''), (''name'', PStr ''X'')]" "PNone" "[]"]
  by (simp add: dget_def)

section \<open>The writer and the file\<close>

lemma no_extra_keys: "\<not> list_ex (\<lambda>k. k \<notin> set fieldnames) fieldnames"
  by (simp add: list_ex_iff)

lemma dictwriter_fieldnames:
  "map fst row = fieldnames \<Longrightarrow>
   dictwriter_writerow cstr row =
     Inr (csv_writerow cstr (map (\<lambda>k. dget row k (PStr [])) fieldnames))"
  by (simp add: dictwriter_writerow_def no_extra_keys)

lemma row_text_dict:
  "row_text cstr ek pen (PDict r) =
     Inr (csv_writerow cstr (map (\<lambda>k. dget (spec_row ek pen r) k (PStr [])) fieldnames))"
  unfolding row_text_def make_row_spec_row
  by (simp add: dictwriter_fieldnames fst_spec_row)

lemma writeheader_text:
  "writeheader cstr = Inr (csv_writerow cstr (map PStr fieldnames))"
proof -
  have keys: "map fst (map (\<lambda>k. (k, PStr k)) fieldnames) = fieldnames"
    by (simp add: comp_def)
  have vals: "map (\<lambda>k. dget (map (\<lambda>k. (k, PStr k)) fieldnames) k (PStr [])) fieldnames
      = map PStr fieldnames"
    by (simp add: fieldnames_def dget_def)
  show ?thesis
    unfolding writeheader_def dictwriter_fieldnames [OF keys] vals ..
qed

lemma header_line:
  \<open>csv_writerow cstr (map PStr fieldnames) =
    ''"EventKey","Pen","Position","Name","Team","Country","Time","DeltaTime","Distance","DeltaDistance","Points","Gender","UID","ARR","ARRBand","EventRating","EventRatingBand","AgeBand","NGB","NGB ID","UCI ID"'' @ [CR, LF]\<close>
  by (simp add: csv_writerow_def fieldnames_def csv_field_def field_quoted_def DQ_def)

lemma file_write_banner: "file_write banner = Inr banner"
  by (simp add: file_write_def banner_def LF_def)

lemma file_write_blank: "file_write [LF] = Inr [LF]"
  by (simp add: file_write_def)

lemma file_write_header:
  "file_write (csv_writerow cstr (map PStr fieldnames)) =
     Inr (csv_writerow cstr (map PStr fieldnames))"
  unfolding header_line by (simp add: file_write_def CR_def LF_def)

lemma file_write_same: "file_write s = Inr w \<Longrightarrow> w = s"
  by (simp add: file_write_def split: if_splits)

lemma file_write_encodable: "\<not> has_surrogate s \<Longrightarrow> file_write s = Inr s"
  by (simp add: file_write_def)

lemma dget_keys:
  "distinct (map fst row) \<Longrightarrow> map (\<lambda>k. dget row k d) (map fst row) = map snd row"
proof (induction row)
  case Nil
  then show ?case by simp
next
  case (Cons kv row)
  obtain k v where kv: "kv = (k, v)" by (cases kv)
  from Cons.prems kv have fresh: "k \<notin> fst ` set row" and dist: "distinct (map fst row)"
    by simp_all
  have "map (\<lambda>k'. dget ((k, v) # row) k' d) (map fst row) = map (\<lambda>k'. dget row k' d) (map fst row)"
    using fresh by (intro map_cong) (auto simp: dget_def)
  with Cons.IH [OF dist] show ?case
    by (simp add: kv dget_def)
qed

lemma distinct_fieldnames: "distinct fieldnames"
  by (simp add: fieldnames_def)

lemma row_text_fields:
  assumes "make_row ek pen result = Inr row"
  shows "row_text cstr ek pen result =
     Inr (join_fields (map (\<lambda>kv. csv_field cstr (snd kv)) row) @ [CR, LF])"
proof -
  from assms obtain r where r: "result = PDict r"
    by (cases result) simp_all
  from assms have "make_row ek pen (PDict r) = Inr row"
    unfolding r .
  then have row: "row = spec_row ek pen r"
    unfolding make_row_spec_row by simp
  have keys: "map fst row = fieldnames"
    unfolding row by (rule fst_spec_row)
  then have "distinct (map fst row)"
    by (simp add: distinct_fieldnames)
  from dget_keys [OF this, of "PStr []"] have "map (\<lambda>k. dget row k (PStr [])) fieldnames = map snd row"
    unfolding keys .
  then show ?thesis
    unfolding row_text_def assms
    by (simp add: dictwriter_fieldnames [OF keys] csv_writerow_def comp_def)
qed

lemma write_rows_dicts:
  assumes "\<forall>r \<in> set rs. \<exists>kvs. r = PDict kvs"
    and "\<forall>r \<in> set rs. \<forall>line. row_text cstr ek pen r = Inr line \<longrightarrow> \<not> has_surrogate line"
  shows "\<exists>ls. write_rows cstr ek pen rs = (ls, None) \<and> length ls = length rs \<and>
        (\<forall>i < length rs. row_text cstr ek pen (rs ! i) = Inr (ls ! i))"
  using assms
proof (induction rs)
  case Nil
  then show ?case by simp
next
  case (Cons r rs)
  then obtain ls where ls: "write_rows cstr ek pen rs = (ls, None)" "length ls = length rs"
      "\<forall>i < length rs. row_text cstr ek pen (rs ! i) = Inr (ls ! i)"
    by auto
  from Cons.prems obtain kvs where r: "r = PDict kvs" by auto
  obtain l where l: "row_text cstr ek pen r = Inr l"
    using r row_text_dict by blast
  with Cons.prems(2) have "\<not> has_surrogate l" by simp
  then have "file_write l = Inr l" by (rule file_write_encodable)
  then have "write_rows cstr ek pen (r # rs) = (l # ls, None)"
    using l ls(1) by simp
  moreover have "\<forall>i < length (r # rs). row_text cstr ek pen ((r # rs) ! i) = Inr ((l # ls) ! i)"
    using l ls(3) by (auto simp: nth_Cons split: nat.split)
  ultimately show ?case using ls(2) by auto
qed

lemma row_text_crlf: "row_text cstr ek pen r = Inr l \<Longrightarrow> \<exists>body. l = body @ [CR, LF]"
  by (auto simp: row_text_def dictwriter_writerow_def csv_writerow_def
      split: sum.splits if_splits)

lemma write_rows_crlf:
  "write_rows cstr ek pen rs = (ls, err) \<Longrightarrow> \<forall>l \<in> set ls. \<exists>body. l = body @ [CR, LF]"
proof (induction rs arbitrary: ls err)
  case Nil
  then show ?case by simp
next
  case (Cons r rs)
  show ?case
  proof (cases "row_text cstr ek pen r")
    case (Inl e)
    with Cons.prems show ?thesis by simp
  next
    case line: (Inr l)
    show ?thesis
    proof (cases "file_write l")
      case (Inl e)
      with line Cons.prems show ?thesis by simp
    next
      case (Inr w)
      then have w: "w = l" by (rule file_write_same)
      obtain ls' err' where rest: "write_rows cstr ek pen rs = (ls', err')"
        by (cases "write_rows cstr ek pen rs")
      with line Inr w Cons.prems have "ls = l # ls'" by simp
      then show ?thesis
        using Cons.IH [OF rest] row_text_crlf [OF line] by auto
    qed
  qed
qed

lemma write_csv_rows:
  "py_iter results = Inr items \<Longrightarrow> write_rows cstr ek pen items = (ls, err) \<Longrightarrow>
   write_csv cstr ek pen results =
     ([banner, [LF], csv_writerow cstr (map PStr fieldnames)] @ ls, err)"
  by (simp add: write_csv_def writeheader_text file_write_banner file_write_blank
      file_write_header)

lemma write_csv_shape:
  "\<exists>ls err. write_csv cstr ek pen results =
       ([banner, [LF], csv_writerow cstr (map PStr fieldnames)] @ ls, err) \<and>
     (\<forall>l \<in> set ls. \<exists>body. l = body @ [CR, LF])"
proof (cases "py_iter results")
  case (Inl e)
  then show ?thesis
    by (simp add: write_csv_def writeheader_text file_write_banner file_write_blank
        file_write_header)
next
  case (Inr items)
  obtain ls err where rows: "write_rows cstr ek pen items = (ls, err)"
    by (cases "write_rows cstr ek pen items")
  from write_csv_rows [OF Inr rows] show ?thesis
    using write_rows_crlf [OF rows] by blast
qed

lemma write_csv_dicts:
  assumes "\<forall>r \<in> set rs. \<exists>kvs. r = PDict kvs"
    and "\<forall>r \<in> set rs. \<forall>line. row_text cstr ek pen r = Inr line \<longrightarrow> \<not> has_surrogate line"
  shows "\<exists>ls. write_csv cstr ek pen (PList rs) =
       ([banner, [LF], csv_writerow cstr (map PStr fieldnames)] @ ls, None) \<and>
     length ls = length rs \<and>
     (\<forall>i < length rs. row_text cstr ek pen (rs ! i) = Inr (ls ! i))"
proof -
  from write_rows_dicts [OF assms] obtain ls where
    ls: "write_rows cstr ek pen rs = (ls, None)" "length ls = length rs"
      "\<forall>i < length rs. row_text cstr ek pen (rs ! i) = Inr (ls ! i)"
    by blast
  have "py_iter (PList rs) = Inr rs" by simp
  from write_csv_rows [OF this ls(1)] ls(2,3) show ?thesis by blast
qed

lemma json_to_csv_written:
  assumes "Written f n b \<in> set (snd (json_to_csv E p out))"
  shows "\<exists>data results ek pen ws err.
      load_json E p = Inr data \<and> locate_results data = Inr (results, ek, pen) \<and>
      truthy results \<and> f = out \<and>
      n = output_name (container_str E) ek pen (strftime (now E)) \<and>
      write_csv (container_str E) ek pen results = (ws, err) \<and> b = utf8_sig ws"
  using assms
  by (auto simp: json_to_csv_def Let_def
      split: sum.splits option.splits if_splits prod.splits)

lemma json_to_csv_writes:
  assumes "load_json E p = Inr data" and "locate_results data = Inr (results, ek, pen)"
    and "truthy results" and "mkdir_error E out = None"
    and "open_error E out (output_name (container_str E) ek pen (strftime (now E))) = None"
    and "write_csv (container_str E) ek pen results = (ws, err)"
  shows "Written out (output_name (container_str E) ek pen (strftime (now E))) (utf8_sig ws)
      \<in> set (snd (json_to_csv E p out))"
  using assms
  by (auto simp: json_to_csv_def Let_def split: sum.splits option.splits)

lemma json_to_csv_write_error:
  assumes "load_json E p = Inr data" and "locate_results data = Inr (results, ek, pen)"
    and "truthy results" and "mkdir_error E out = None"
    and "open_error E out (output_name (container_str E) ek pen (strftime (now E))) = None"
    and "write_csv (container_str E) ek pen results = (ws, Some e)"
  shows "json_to_csv E p out =
     (Raised e,
      [LoadJson p, Mkdir out,
       OpenWrite out (output_name (container_str E) ek pen (strftime (now E))),
       Written out (output_name (container_str E) ek pen (strftime (now E))) (utf8_sig ws)])"
  using assms by (simp add: json_to_csv_def Let_def)

section \<open>Decimal text\<close>

lemma dec_nat_small: "n < 10 \<Longrightarrow> dec_nat n = [digit_char n]"
  by (simp add: dec_nat.simps)

lemma dec_nat_large: "\<not> n < 10 \<Longrightarrow> dec_nat n = dec_nat (n div 10) @ [digit_char (n mod 10)]"
  by (subst dec_nat.simps) simp

lemma zero_pad_one: "n < 10 \<Longrightarrow> zero_pad (Suc 0) n = [digit_char n]"
  by (simp add: zero_pad_def dec_nat_small)

lemma zero_pad_Suc:
  assumes "0 < w"
  shows "zero_pad (Suc w) n = zero_pad w (n div 10) @ [digit_char (n mod 10)]"
proof (cases "n < 10")
  case True
  have zero: "dec_nat 0 = ''0''" by (simp add: dec_nat_small digit_char_def)
  from assms obtain v where w: "w = Suc v" by (cases w) auto
  have "zero_pad w (n div 10) = replicate w CHR ''0''"
    using True by (simp add: zero_pad_def zero w replicate_append_same)
  with True show ?thesis
    by (simp add: zero_pad_def dec_nat_small)
next
  case False
  then have "dec_nat n = dec_nat (n div 10) @ [digit_char (n mod 10)]"
    by (rule dec_nat_large)
  then show ?thesis
    by (simp add: zero_pad_def)
qed

lemma zero_pad_two: "n < 100 \<Longrightarrow> zero_pad 2 n = [digit_char (n div 10), digit_char (n mod 10)]"
proof -
  assume "n < 100"
  then have "n div 10 < 10" by simp
  moreover have "zero_pad (Suc (Suc 0)) n = zero_pad (Suc 0) (n div 10) @ [digit_char (n mod 10)]"
    by (rule zero_pad_Suc) simp
  ultimately show ?thesis
    by (simp add: zero_pad_one numeral_2_eq_2)
qed

lemma zero_pad_four:
  assumes "n < 10000"
  shows "zero_pad 4 n =
    [digit_char (n div 1000), digit_char (n div 100 mod 10), digit_char (n div 10 mod 10),
     digit_char (n mod 10)]"
proof -
  have a: "zero_pad (Suc 3) n = zero_pad 3 (n div 10) @ [digit_char (n mod 10)]"
    by (rule zero_pad_Suc) simp
  have b: "zero_pad (Suc 2) (n div 10) =
      zero_pad 2 (n div 10 div 10) @ [digit_char (n div 10 mod 10)]"
    by (rule zero_pad_Suc) simp
  have d2: "n div 10 div 10 = n div 100" and d3: "n div 100 div 10 = n div 1000"
    by (simp_all add: div_mult2_eq [symmetric])
  from assms have "n div 100 < 100" by simp
  then have c: "zero_pad 2 (n div 100) = [digit_char (n div 1000), digit_char (n div 100 mod 10)]"
    by (simp add: zero_pad_two d3)
  have "zero_pad 4 n = zero_pad (Suc 3) n" by simp
  also have "\<dots> = zero_pad (Suc 2) (n div 10) @ [digit_char (n mod 10)]"
    unfolding a by simp
  finally show ?thesis
    unfolding b d2 c by simp
qed

lemma digit_not_special: "d < 10 \<Longrightarrow> \<not> csv_special (digit_char d)"
proof -
  assume "d < 10"
  then have "d = 0 \<or> d = 1 \<or> d = 2 \<or> d = 3 \<or> d = 4 \<or> d = 5 \<or> d = 6 \<or> d = 7 \<or> d = 8 \<or> d = 9"
    by arith
  then show ?thesis
    unfolding csv_special_def DQ_def CR_def LF_def digit_char_def
    by (elim disjE) simp_all
qed

lemma dec_nat_not_special: "\<not> list_ex csv_special (dec_nat n)"
proof (induction n rule: dec_nat.induct)
  case (1 n)
  show ?case
  proof (cases "n < 10")
    case True
    then show ?thesis by (simp add: dec_nat_small digit_not_special)
  next
    case False
    with "1.IH" show ?thesis by (simp add: dec_nat_large digit_not_special)
  qed
qed

lemma dec_int_not_special: "\<not> list_ex csv_special (dec_int i)"
proof -
  have "\<not> csv_special CHR ''-''"
    by (simp add: csv_special_def DQ_def CR_def LF_def)
  then show ?thesis
    by (simp add: dec_int_def dec_nat_not_special)
qed

section \<open>Rows\<close>

lemma example_name:
  "output_name (container_str (example_env doc)) (PStr ''88000'') (PStr ''1'')
     (strftime (now (example_env doc))) =
   ''TPVirtual-Results-Event88000-Pen1-20261104_175309.csv''"
  by (simp add: example_env_def output_name_def strftime_def zero_pad_two zero_pad_four
      digit_char_def)

lemma dec_int_zero: "dec_int 0 = ''0''"
  by (simp add: dec_int_def dec_nat_small digit_char_def)

lemma sample_row:
  \<open>row_text (container_str (example_env doc)) (PStr ''88000'') (PStr ''1'')
      (PDict [(''name'', PStr ''X'')]) =
    Inr (''"88000","1","","X","","",0,0,32417.966,0,0,"","","","","","","","","",""''
         @ [CR, LF])\<close>
  by (simp add: row_text_def dictwriter_writerow_def fieldnames_def csv_writerow_def
      csv_field_def field_quoted_def dget_def csv_special_def dec_int_zero DQ_def CR_def LF_def)

lemma sample_row_encodable:
  \<open>\<not> has_surrogate
     (''"88000","1","","X","","",0,0,32417.966,0,0,"","","","","","","","","",""''
      @ [CR, LF])\<close>
  by (simp add: CR_def LF_def)

lemma two_elements: "length ls = 2 \<Longrightarrow> ls = [ls ! 0, ls ! 1]"
  by (cases ls; cases "tl ls") auto

lemma one_element: "length ls = 1 \<Longrightarrow> ls = [ls ! 0]"
  by (cases ls) auto

text \<open>
  Claim C3, amended. When the record list is a non-empty list of records, no row of
  which holds a text the encoder of the file refuses, and the folder and the file can be
  made, the converter writes one file: the banner, the blank line, the header and one
  data row per record. The i-th data row is the fields of the row built for the i-th
  record, separated by commas and ended by carriage return and line feed, so the rows
  are as many as the records and in their order. A root object without a results key
  yields exactly one data row.
\<close>

theorem rows_in_order:
  assumes "load_json E p = Inr data"
    and "locate_results data = Inr (PList rs, ek, pen)"
    and "rs \<noteq> []"
    and "\<forall>r \<in> set rs. \<exists>kvs. r = PDict kvs"
    and "\<forall>r \<in> set rs. \<forall>line. row_text (container_str E) ek pen r = Inr line \<longrightarrow>
           \<not> has_surrogate line"
    and "mkdir_error E out = None"
    and "open_error E out (output_name (container_str E) ek pen (strftime (now E))) = None"
  shows \<open>\<exists>ls.
     Written out (output_name (container_str E) ek pen (strftime (now E)))
       (BOM @ ''OVERALL INDIVIDUAL RESULTS:'' @ [LF] @ [LF] @
        ''"EventKey","Pen","Position","Name","Team","Country","Time","DeltaTime","Distance","DeltaDistance","Points","Gender","UID","ARR","ARRBand","EventRating","EventRatingBand","AgeBand","NGB","NGB ID","UCI ID"'' @ [CR, LF] @
        concat ls)
       \<in> set (snd (json_to_csv E p out)) \<and>
     (\<forall>f n b. Written f n b \<in> set (snd (json_to_csv E p out)) \<longrightarrow>
        f = out \<and> n = output_name (container_str E) ek pen (strftime (now E)) \<and>
        b = BOM @ ''OVERALL INDIVIDUAL RESULTS:'' @ [LF] @ [LF] @
          ''"EventKey","Pen","Position","Name","Team","Country","Time","DeltaTime","Distance","DeltaDistance","Points","Gender","UID","ARR","ARRBand","EventRating","EventRatingBand","AgeBand","NGB","NGB ID","UCI ID"'' @ [CR, LF] @
          concat ls) \<and>
     length ls = length rs \<and>
     (\<forall>i < length rs. \<exists>row.
        make_row ek pen (rs ! i) = Inr row \<and>
        ls ! i = join_fields (map (\<lambda>kv. csv_field (container_str E) (snd kv)) row) @ [CR, LF]) \<and>
     (\<forall>kvs. data = PDict kvs \<and> map_of kvs ''results'' = None \<longrightarrow> length ls = 1)\<close>
proof -
  let ?c = "container_str E"
  let ?n = "output_name ?c ek pen (strftime (now E))"
  from write_csv_dicts [OF assms(4,5)] obtain ls where
    ws: "write_csv ?c ek pen (PList rs) =
        ([banner, [LF], csv_writerow ?c (map PStr fieldnames)] @ ls, None)"
    and len: "length ls = length rs"
    and rows: "\<forall>i < length rs. row_text ?c ek pen (rs ! i) = Inr (ls ! i)"
    by blast
  let ?b = \<open>BOM @ ''OVERALL INDIVIDUAL RESULTS:'' @ [LF] @ [LF] @
        ''"EventKey","Pen","Position","Name","Team","Country","Time","DeltaTime","Distance","DeltaDistance","Points","Gender","UID","ARR","ARRBand","EventRating","EventRatingBand","AgeBand","NGB","NGB ID","UCI ID"'' @ [CR, LF] @
        concat ls\<close>
  have bytes: "utf8_sig ([banner, [LF], csv_writerow ?c (map PStr fieldnames)] @ ls) = ?b"
    unfolding header_line banner_def by simp
  have nonempty: "truthy (PList rs)"
    using assms(3) by simp
  have written: "Written out ?n ?b \<in> set (snd (json_to_csv E p out))"
    using json_to_csv_writes [OF assms(1,2) nonempty assms(6,7) ws] unfolding bytes .
  have only: "f = out \<and> n = ?n \<and> b = ?b"
    if "Written f n b \<in> set (snd (json_to_csv E p out))" for f n b
  proof -
    from json_to_csv_written [OF that] obtain data' results' ek' pen' ws' err' where
      d: "load_json E p = Inr data'" "locate_results data' = Inr (results', ek', pen')"
        "f = out" "n = output_name ?c ek' pen' (strftime (now E))"
        "write_csv ?c ek' pen' results' = (ws', err')" "b = utf8_sig ws'"
      by blast
    from d(1) assms(1) have "data' = data" by simp
    with d(2) assms(2) have same: "results' = PList rs" "ek' = ek" "pen' = pen"
      by simp_all
    with d(5) ws have "ws' = [banner, [LF], csv_writerow ?c (map PStr fieldnames)] @ ls"
      by simp
    with d(3,4,6) same bytes show ?thesis by simp
  qed
  have fields: "\<exists>row. make_row ek pen (rs ! i) = Inr row \<and>
      ls ! i = join_fields (map (\<lambda>kv. csv_field ?c (snd kv)) row) @ [CR, LF]"
    if "i < length rs" for i
  proof -
    from that assms(4) obtain kvs where "rs ! i = PDict kvs"
      using nth_mem by blast
    then have row: "make_row ek pen (rs ! i) = Inr (spec_row ek pen kvs)"
      using make_row_spec_row by simp
    from row_text_fields [OF row, of ?c] rows that
    have "ls ! i = join_fields (map (\<lambda>kv. csv_field ?c (snd kv)) (spec_row ek pen kvs)) @ [CR, LF]"
      by simp
    with row show ?thesis by blast
  qed
  have single: "length ls = 1" if "data = PDict kvs" "map_of kvs ''results'' = None" for kvs
    using assms(2) locate_results_single [OF that(2)] that(1) len by auto
  from written only len fields single show ?thesis
    by (intro exI [of _ ls]) blast
qed

theorem rows_in_order_witness:
  \<open>Written ''out'' ''TPVirtual-Results-Event88000-Pen1-20261104_175309.csv''
     (BOM @ ''OVERALL INDIVIDUAL RESULTS:'' @ [LF] @ [LF] @
      ''"EventKey","Pen","Position","Name","Team","Country","Time","DeltaTime","Distance","DeltaDistance","Points","Gender","UID","ARR","ARRBand","EventRating","EventRatingBand","AgeBand","NGB","NGB ID","UCI ID"'' @ [CR, LF] @
      ''"88000","1","","X","","",0,0,32417.966,0,0,"","","","","","","","","",""'' @ [CR, LF] @
      ''"88000","1","","Y","","",0,0,32417.966,0,0,"","","","","","","","","",""'' @ [CR, LF])
     \<in> set (snd (json_to_csv
          (example_env (PList [PDict [(''name'', PStr ''X'')], PDict [(''name'', PStr ''Y'')]]))
          ''in.json'' ''out'')) \<and>
   Written ''out'' ''TPVirtual-Results-Event88000-Pen1-20261104_175309.csv''
     (BOM @ ''OVERALL INDIVIDUAL RESULTS:'' @ [LF] @ [LF] @
      ''"EventKey","Pen","Position","Name","Team","Country","Time","DeltaTime","Distance","DeltaDistance","Points","Gender","UID","ARR","ARRBand","EventRating","EventRatingBand","AgeBand","NGB","NGB ID","UCI ID"'' @ [CR, LF] @
      ''"88000","1","","X","","",0,0,32417.966,0,0,"","","","","","","","","",""'' @ [CR, LF])
     \<in> set (snd (json_to_csv (example_env (PDict [(''name'', PStr ''X'')]))
          ''in.json'' ''out''))\<close>
proof -
  let ?x = "PDict [(''name'', PStr ''X'')]"
  let ?y = "PDict [(''name'', PStr ''Y'')]"
  let ?ek = "PStr ''88000''"
  let ?pen = "PStr ''1''"
  let ?lx = \<open>''"88000","1","","X","","",0,0,32417.966,0,0,"","","","","","","","","",""''
      @ [CR, LF]\<close>
  let ?ly = \<open>''"88000","1","","Y","","",0,0,32417.966,0,0,"","","","","","","","","",""''
      @ [CR, LF]\<close>
  have row_y: "row_text (container_str (example_env doc)) ?ek ?pen ?y = Inr ?ly" for doc
    by (simp add: row_text_def dictwriter_writerow_def fieldnames_def csv_writerow_def
        csv_field_def field_quoted_def dget_def csv_special_def dec_int_zero DQ_def CR_def
        LF_def)
  have enc_y: "\<not> has_surrogate ?ly"
    by (simp add: CR_def LF_def)
  have list: \<open>Written ''out'' ''TPVirtual-Results-Event88000-Pen1-20261104_175309.csv''
     (BOM @ ''OVERALL INDIVIDUAL RESULTS:'' @ [LF] @ [LF] @
      ''"EventKey","Pen","Position","Name","Team","Country","Time","DeltaTime","Distance","DeltaDistance","Points","Gender","UID","ARR","ARRBand","EventRating","EventRatingBand","AgeBand","NGB","NGB ID","UCI ID"'' @ [CR, LF] @
      ?lx @ ?ly)
     \<in> set (snd (json_to_csv (example_env (PList [?x, ?y])) ''in.json'' ''out''))\<close>
  proof -
    let ?rs = "[?x, ?y]"
    let ?E = "example_env (PList ?rs)"
    have h1: "load_json ?E ''in.json'' = Inr (PList ?rs)"
      and h6: "mkdir_error ?E ''out'' = None"
      and h7: "open_error ?E ''out''
        (output_name (container_str ?E) ?ek ?pen (strftime (now ?E))) = None"
      by (simp_all add: example_env_def)
    have h2: "locate_results (PList ?rs) = Inr (PList ?rs, ?ek, ?pen)"
      by (rule locate_results_list) simp
    have h3: "?rs \<noteq> []" by simp
    have h4: "\<forall>r \<in> set ?rs. \<exists>kvs. r = PDict kvs" by simp
    have h5: "\<forall>r \<in> set ?rs. \<forall>line. row_text (container_str ?E) ?ek ?pen r = Inr line \<longrightarrow>
        \<not> has_surrogate line"
      using sample_row_encodable enc_y by (simp add: sample_row row_y)
    from rows_in_order [OF h1 h2 h3 h4 h5 h6 h7] obtain ls where
      w: \<open>Written ''out'' (output_name (container_str ?E) ?ek ?pen (strftime (now ?E)))
       (BOM @ ''OVERALL INDIVIDUAL RESULTS:'' @ [LF] @ [LF] @
        ''"EventKey","Pen","Position","Name","Team","Country","Time","DeltaTime","Distance","DeltaDistance","Points","Gender","UID","ARR","ARRBand","EventRating","EventRatingBand","AgeBand","NGB","NGB ID","UCI ID"'' @ [CR, LF] @
        concat ls)
       \<in> set (snd (json_to_csv ?E ''in.json'' ''out''))\<close>
      and len: "length ls = length ?rs"
      and fields: "\<forall>i < length ?rs. \<exists>row.
        make_row ?ek ?pen (?rs ! i) = Inr row \<and>
        ls ! i = join_fields (map (\<lambda>kv. csv_field (container_str ?E) (snd kv)) row) @ [CR, LF]"
      by blast
    have line: "row_text (container_str ?E) ?ek ?pen (?rs ! i) = Inr (ls ! i)"
      if "i < length ?rs" for i
      using fields [rule_format, OF that] row_text_fields [of ?ek ?pen "?rs ! i"] by auto
    from line [of 0] have l0: "ls ! 0 = ?lx"
      by (simp add: sample_row)
    from line [of 1] have l1: "ls ! 1 = ?ly"
      by (simp add: row_y)
    from len have "ls = [ls ! 0, ls ! 1]"
      by (intro two_elements) simp
    then have "concat ls = ?lx @ ?ly"
      using l0 l1 by (metis append_Nil2 concat.simps)
    with w show ?thesis
      unfolding example_name by simp
  qed
  have single_object: \<open>Written ''out'' ''TPVirtual-Results-Event88000-Pen1-20261104_175309.csv''
     (BOM @ ''OVERALL INDIVIDUAL RESULTS:'' @ [LF] @ [LF] @
      ''"EventKey","Pen","Position","Name","Team","Country","Time","DeltaTime","Distance","DeltaDistance","Points","Gender","UID","ARR","ARRBand","EventRating","EventRatingBand","AgeBand","NGB","NGB ID","UCI ID"'' @ [CR, LF] @
      ?lx)
     \<in> set (snd (json_to_csv (example_env ?x) ''in.json'' ''out''))\<close>
  proof -
    let ?rs = "[?x]"
    let ?E = "example_env ?x"
    have h1: "load_json ?E ''in.json'' = Inr ?x"
      and h6: "mkdir_error ?E ''out'' = None"
      and h7: "open_error ?E ''out''
        (output_name (container_str ?E) ?ek ?pen (strftime (now ?E))) = None"
      by (simp_all add: example_env_def)
    have h2: "locate_results ?x = Inr (PList ?rs, ?ek, ?pen)"
      by (simp add: locate_results_single dget_def)
    have h3: "?rs \<noteq> []" by simp
    have h4: "\<forall>r \<in> set ?rs. \<exists>kvs. r = PDict kvs" by simp
    have h5: "\<forall>r \<in> set ?rs. \<forall>line. row_text (container_str ?E) ?ek ?pen r = Inr line \<longrightarrow>
        \<not> has_surrogate line"
      using sample_row_encodable by (simp add: sample_row)
    from rows_in_order [OF h1 h2 h3 h4 h5 h6 h7] obtain ls where
      w: \<open>Written ''out'' (output_name (container_str ?E) ?ek ?pen (strftime (now ?E)))
       (BOM @ ''OVERALL INDIVIDUAL RESULTS:'' @ [LF] @ [LF] @
        ''"EventKey","Pen","Position","Name","Team","Country","Time","DeltaTime","Distance","DeltaDistance","Points","Gender","UID","ARR","ARRBand","EventRating","EventRatingBand","AgeBand","NGB","NGB ID","UCI ID"'' @ [CR, LF] @
        concat ls)
       \<in> set (snd (json_to_csv ?E ''in.json'' ''out''))\<close>
      and fields: "\<forall>i < length ?rs. \<exists>row.
        make_row ?ek ?pen (?rs ! i) = Inr row \<and>
        ls ! i = join_fields (map (\<lambda>kv. csv_field (container_str ?E) (snd kv)) row) @ [CR, LF]"
      and single: "\<forall>kvs. ?x = PDict kvs \<and> map_of kvs ''results'' = None \<longrightarrow> length ls = 1"
      by blast
    from single have len: "length ls = 1" by simp
    have "row_text (container_str ?E) ?ek ?pen (?rs ! 0) = Inr (ls ! 0)"
      using fields [rule_format, of 0] row_text_fields [of ?ek ?pen "?rs ! 0"] by auto
    then have l0: "ls ! 0 = ?lx"
      by (simp add: sample_row)
    from len have "ls = [ls ! 0]"
      by (rule one_element)
    then have "concat ls = ?lx"
      using l0 by (metis append_Nil2 concat.simps)
    with w show ?thesis
      unfolding example_name by simp
  qed
  from list single_object show ?thesis
    by simp
qed

text \<open>
  The claim as first stated holds for every non-empty record list. A record whose name
  is a lone surrogate, which the loader accepts, makes the write of its row raise
  \<^verbatim>\<open>UnicodeEncodeError\<close>: of the two records of the list below, the file holds the row of
  the first alone, and the conversion ends with the exception.
\<close>

theorem unencodable_row_ends_writing:
  \<open>json_to_csv
     (example_env (PList [PDict [(''name'', PStr ''X'')],
                          PDict [(''name'', PStr [CHR 0xED, CHR 0xA0, CHR 0x80])]]))
     ''in.json'' ''out'' =
   (Raised UnicodeEncodeError,
    [LoadJson ''in.json'', Mkdir ''out'',
     OpenWrite ''out'' ''TPVirtual-Results-Event88000-Pen1-20261104_175309.csv'',
     Written ''out'' ''TPVirtual-Results-Event88000-Pen1-20261104_175309.csv''
       (BOM @ ''OVERALL INDIVIDUAL RESULTS:'' @ [LF] @ [LF] @
        ''"EventKey","Pen","Position","Name","Team","Country","Time","DeltaTime","Distance","DeltaDistance","Points","Gender","UID","ARR","ARRBand","EventRating","EventRatingBand","AgeBand","NGB","NGB ID","UCI ID"'' @ [CR, LF] @
        ''"88000","1","","X","","",0,0,32417.966,0,0,"","","","","","","","","",""'' @ [CR, LF])])\<close>
proof -
  let ?x = "PDict [(''name'', PStr ''X'')]"
  let ?s = "PDict [(''name'', PStr [CHR 0xED, CHR 0xA0, CHR 0x80])]"
  let ?ek = "PStr ''88000''"
  let ?pen = "PStr ''1''"
  let ?E = "example_env (PList [?x, ?s])"
  let ?lx = \<open>''"88000","1","","X","","",0,0,32417.966,0,0,"","","","","","","","","",""''
      @ [CR, LF]\<close>
  have "\<exists>l. row_text (container_str ?E) ?ek ?pen ?s = Inr l \<and> has_surrogate l"
    by (simp add: row_text_def dictwriter_writerow_def fieldnames_def csv_writerow_def
        csv_field_def field_quoted_def dget_def csv_special_def dec_int_zero DQ_def CR_def
        LF_def)
  then obtain l where l: "row_text (container_str ?E) ?ek ?pen ?s = Inr l"
    and refused: "has_surrogate l"
    by blast
  have "write_rows (container_str ?E) ?ek ?pen [?x, ?s] = ([?lx], Some UnicodeEncodeError)"
    by (simp add: sample_row l refused file_write_def CR_def LF_def)
  moreover have "py_iter (PList [?x, ?s]) = Inr [?x, ?s]"
    by simp
  ultimately have ws: "write_csv (container_str ?E) ?ek ?pen (PList [?x, ?s]) =
      ([banner, [LF], csv_writerow (container_str ?E) (map PStr fieldnames)] @ [?lx],
       Some UnicodeEncodeError)"
    by (rule write_csv_rows [rotated])
  have loaded: "load_json ?E ''in.json'' = Inr (PList [?x, ?s])"
    and made: "mkdir_error ?E ''out'' = None"
    and opened: "open_error ?E ''out'' n = None" for n
    by (simp_all add: example_env_def)
  have shape: "locate_results (PList [?x, ?s]) = Inr (PList [?x, ?s], ?ek, ?pen)"
    by (rule locate_results_list) simp
  have nonempty: "truthy (PList [?x, ?s])"
    by simp
  from json_to_csv_write_error [OF loaded shape nonempty made opened ws] show ?thesis
    unfolding example_name header_line banner_def by simp
qed

section \<open>The file written, the empty record list and the entry point\<close>

lemma example_written:
  "\<exists>b. Written ''out'' ''TPVirtual-Results-Event88000-Pen1-20261104_175309.csv'' b
     \<in> set (snd (json_to_csv (example_env (PList [PDict kvs])) ''in.json'' ''out''))"
proof -
  let ?E = "example_env (PList [PDict kvs])"
  obtain ws err where
    ws: "write_csv (container_str ?E) (PStr ''88000'') (PStr ''1'') (PList [PDict kvs]) = (ws, err)"
    by (cases "write_csv (container_str ?E) (PStr ''88000'') (PStr ''1'') (PList [PDict kvs])")
  have h1: "load_json ?E ''in.json'' = Inr (PList [PDict kvs])"
    by (simp add: example_env_def)
  have h2: "locate_results (PList [PDict kvs]) = Inr (PList [PDict kvs], PStr ''88000'', PStr ''1'')"
    by (rule locate_results_list) simp
  have h3: "truthy (PList [PDict kvs])"
    by simp
  have h4: "mkdir_error ?E ''out'' = None"
    by (simp add: example_env_def)
  have h5: "open_error ?E ''out''
      (output_name (container_str ?E) (PStr ''88000'') (PStr ''1'') (strftime (now ?E))) = None"
    by (simp add: example_env_def)
  have "Written ''out''
      (output_name (container_str ?E) (PStr ''88000'') (PStr ''1'') (strftime (now ?E)))
      (utf8_sig ws) \<in> set (snd (json_to_csv ?E ''in.json'' ''out''))"
    by (rule json_to_csv_writes [OF h1 h2 h3 h4 h5 ws])
  then show ?thesis
    unfolding example_name by blast
qed

text \<open>
  Claim C4. Every file the converter writes starts with the three bytes of the UTF-8 byte
  order mark, then the line OVERALL INDIVIDUAL RESULTS:, then an empty line, then the
  header row of the 21 field names EventKey, Pen, Position, Name, Team, Country, Time,
  DeltaTime, Distance, DeltaDistance, Points, Gender, UID, ARR, ARRBand, EventRating,
  EventRatingBand, AgeBand, NGB, NGB ID, UCI ID in this order, before anything else; and
  a conversion with a non-empty record list, whose folder and file can be made, does
  write the file.
\<close>

theorem file_prologue:
  \<open>(\<forall>f n b. Written f n b \<in> set (snd (json_to_csv E p out)) \<longrightarrow>
      (\<exists>rest. b = BOM @ ''OVERALL INDIVIDUAL RESULTS:'' @ [LF] @ [LF] @
        ''"EventKey","Pen","Position","Name","Team","Country","Time","DeltaTime","Distance","DeltaDistance","Points","Gender","UID","ARR","ARRBand","EventRating","EventRatingBand","AgeBand","NGB","NGB ID","UCI ID"'' @ [CR, LF] @ rest)) \<and>
   (load_json E p = Inr data \<and> locate_results data = Inr (results, ek, pen) \<and>
    truthy results \<and> mkdir_error E out = None \<and>
    open_error E out (output_name (container_str E) ek pen (strftime (now E))) = None \<longrightarrow>
      (\<exists>b. Written out (output_name (container_str E) ek pen (strftime (now E))) b
         \<in> set (snd (json_to_csv E p out)))) \<and>
   BOM = [CHR 0xEF, CHR 0xBB, CHR 0xBF] \<and>
   length fieldnames = 21\<close>
proof -
  have a: \<open>\<exists>rest. b = BOM @ ''OVERALL INDIVIDUAL RESULTS:'' @ [LF] @ [LF] @
        ''"EventKey","Pen","Position","Name","Team","Country","Time","DeltaTime","Distance","DeltaDistance","Points","Gender","UID","ARR","ARRBand","EventRating","EventRatingBand","AgeBand","NGB","NGB ID","UCI ID"'' @ [CR, LF] @ rest\<close>
    if "Written f n b \<in> set (snd (json_to_csv E p out))" for f n b
  proof -
    from json_to_csv_written [OF that] obtain results ek pen ws err where
      ws: "write_csv (container_str E) ek pen results = (ws, err)" and b: "b = utf8_sig ws"
      by blast
    from write_csv_shape [of "container_str E" ek pen results] ws obtain ls where
      "ws = [banner, [LF], csv_writerow (container_str E) (map PStr fieldnames)] @ ls"
      by auto
    then have "b = BOM @ banner @ [LF] @
        csv_writerow (container_str E) (map PStr fieldnames) @ concat ls"
      using b by simp
    then show ?thesis
      unfolding header_line banner_def by simp
  qed
  have b: "\<exists>b. Written out (output_name (container_str E) ek pen (strftime (now E))) b
         \<in> set (snd (json_to_csv E p out))"
    if "load_json E p = Inr data" "locate_results data = Inr (results, ek, pen)"
      "truthy results" "mkdir_error E out = None"
      "open_error E out (output_name (container_str E) ek pen (strftime (now E))) = None"
  proof -
    obtain ws err where "write_csv (container_str E) ek pen results = (ws, err)"
      by (cases "write_csv (container_str E) ek pen results")
    from json_to_csv_writes [OF that this] show ?thesis by blast
  qed
  have c: "length fieldnames = 21" by (simp add: fieldnames_def)
  from a b c show ?thesis
    unfolding BOM_def by blast
qed

theorem file_prologue_witness:
  \<open>\<exists>rest. Written ''out'' ''TPVirtual-Results-Event88000-Pen1-20261104_175309.csv''
      (BOM @ ''OVERALL INDIVIDUAL RESULTS:'' @ [LF] @ [LF] @
        ''"EventKey","Pen","Position","Name","Team","Country","Time","DeltaTime","Distance","DeltaDistance","Points","Gender","UID","ARR","ARRBand","EventRating","EventRatingBand","AgeBand","NGB","NGB ID","UCI ID"'' @ [CR, LF] @ rest)
     \<in> set (snd (json_to_csv (example_env (PList [PDict [(''name'', PStr ''X'')]]))
          ''in.json'' ''out''))\<close>
proof -
  let ?doc = "PList [PDict [(''name'', PStr ''X'')]]"
  let ?E = "example_env ?doc"
  have hyps: "load_json ?E ''in.json'' = Inr ?doc \<and>
      locate_results ?doc = Inr (?doc, PStr ''88000'', PStr ''1'') \<and>
      truthy ?doc \<and> mkdir_error ?E ''out'' = None \<and>
      open_error ?E ''out''
        (output_name (container_str ?E) (PStr ''88000'') (PStr ''1'') (strftime (now ?E))) = None"
    by (simp add: example_env_def locate_results_list)
  note inst = file_prologue [of ?E "''in.json''" "''out''" ?doc ?doc "PStr ''88000''" "PStr ''1''"]
  from inst hyps obtain b where
    b: "Written ''out''
      (output_name (container_str ?E) (PStr ''88000'') (PStr ''1'') (strftime (now ?E))) b
      \<in> set (snd (json_to_csv ?E ''in.json'' ''out''))"
    by blast
  with inst show ?thesis
    unfolding example_name by blast
qed

text \<open>
  Claim C5, amended. When the record list located in the document is empty, the
  converter prints the notice that no results were found and returns \<^verbatim>\<open>None\<close>: it makes
  no folder, opens and writes no file, prints nothing else, so no count of processed
  records either, and the entry point ends with exit status 0. The document
  \<^verbatim>\<open>{"results": []}\<close> has an empty record list.
\<close>

theorem no_results:
  "(load_json E p = Inr data \<and> locate_results data = Inr (results, ek, pen) \<and>
    \<not> truthy results \<longrightarrow>
      json_to_csv E p out =
        (Returned None, [LoadJson p, Print ''No results found in JSON data'']) \<and>
      (path_exists E p \<longrightarrow>
         main E [prog, p, out] =
           (Exit 0, [PathExists p, LoadJson p, Print ''No results found in JSON data'']))) \<and>
   locate_results (PDict [(''results'', PList [])]) = Inr (PList [], PStr ''88000'', PStr ''1'') \<and>
   \<not> truthy (PList [])"
  by (simp add: json_to_csv_def main_def locate_results_def header_values_def py_get2_def
      dget_def)

theorem no_results_witness:
  "json_to_csv (example_env (PDict [(''results'', PList [])])) ''in.json'' ''out'' =
     (Returned None, [LoadJson ''in.json'', Print ''No results found in JSON data'']) \<and>
   main (example_env (PDict [(''results'', PList [])])) [''json_to_csv.py'', ''in.json'', ''out''] =
     (Exit 0, [PathExists ''in.json'', LoadJson ''in.json'',
               Print ''No results found in JSON data''])"
proof -
  let ?doc = "PDict [(''results'', PList [])]"
  have "load_json (example_env ?doc) ''in.json'' = Inr ?doc"
    and "path_exists (example_env ?doc) ''in.json''"
    by (simp_all add: example_env_def)
  then show ?thesis
    using no_results [of "example_env ?doc" "''in.json''" ?doc "PList []" "PStr ''88000''"
        "PStr ''1''" "''out''" "''json_to_csv.py''"]
    by simp
qed

text \<open>
  The claim as first stated has the converter report zero processed records for the
  document \<^verbatim>\<open>{"results": []}\<close>. The converter returns at line 52, before the summary of line
  109: the notice is all it prints, and no line counting the records is among it.
\<close>

theorem empty_results_no_count:
  "json_to_csv (example_env (PDict [(''results'', PList [])])) ''in.json'' ''out'' =
     (Returned None, [LoadJson ''in.json'', Print ''No results found in JSON data'']) \<and>
   Print ''  - 0 results processed''
     \<notin> set (snd (json_to_csv (example_env (PDict [(''results'', PList [])]))
          ''in.json'' ''out''))"
  by (simp add: json_to_csv_def example_env_def locate_results_def header_values_def
      py_get2_def dget_def)



text \<open>
  Claim C9. In every file written, the banner line and the empty line after it end with
  a line feed that no carriage return precedes, while the header row and every data row
  written after it end with carriage return and line feed.
\<close>

theorem line_terminators:
  assumes "Written f n b \<in> set (snd (json_to_csv E p out))"
  shows "\<exists>results ek pen h ls err.
      write_csv (container_str E) ek pen results =
        ([''OVERALL INDIVIDUAL RESULTS:'' @ [LF], [LF], h] @ ls, err) \<and>
      b = BOM @ (''OVERALL INDIVIDUAL RESULTS:'' @ [LF]) @ [LF] @ h @ concat ls \<and>
      writeheader (container_str E) = Inr h \<and>
      CR \<notin> set ''OVERALL INDIVIDUAL RESULTS:'' \<and>
      (\<forall>l \<in> set (h # ls). \<exists>body. l = body @ [CR, LF])"
proof -
  from json_to_csv_written [OF assms] obtain results ek pen ws err where
    ws: "write_csv (container_str E) ek pen results = (ws, err)" and b: "b = utf8_sig ws"
    by blast
  let ?h = "csv_writerow (container_str E) (map PStr fieldnames)"
  from write_csv_shape [of "container_str E" ek pen results] ws obtain ls where
    shape: "ws = [banner, [LF], ?h] @ ls" and crlf: "\<forall>l \<in> set ls. \<exists>body. l = body @ [CR, LF]"
    by auto
  have h: "\<exists>body. ?h = body @ [CR, LF]" by (simp add: csv_writerow_def)
  have all: "\<forall>l \<in> set (?h # ls). \<exists>body. l = body @ [CR, LF]"
    using crlf h by simp
  have cr: "CR \<notin> set ''OVERALL INDIVIDUAL RESULTS:''" by (simp add: CR_def)
  have bytes: "b = BOM @ (''OVERALL INDIVIDUAL RESULTS:'' @ [LF]) @ [LF] @ ?h @ concat ls"
    using b shape by (simp add: banner_def)
  have writes: "write_csv (container_str E) ek pen results =
      ([''OVERALL INDIVIDUAL RESULTS:'' @ [LF], [LF], ?h] @ ls, err)"
    using ws shape by (simp add: banner_def)
  show ?thesis
    by (intro exI conjI, rule writes, rule bytes, rule writeheader_text, rule cr, rule all)
qed

theorem line_terminators_witness:
  "\<exists>b results ek pen h ls err.
      Written ''out'' ''TPVirtual-Results-Event88000-Pen1-20261104_175309.csv'' b
        \<in> set (snd (json_to_csv (example_env (PList [PDict [(''name'', PStr ''X'')]]))
             ''in.json'' ''out'')) \<and>
      write_csv (\<lambda>v. ''[]'') ek pen results =
        ([''OVERALL INDIVIDUAL RESULTS:'' @ [LF], [LF], h] @ ls, err) \<and>
      b = BOM @ (''OVERALL INDIVIDUAL RESULTS:'' @ [LF]) @ [LF] @ h @ concat ls \<and>
      writeheader (\<lambda>v. ''[]'') = Inr h \<and>
      CR \<notin> set ''OVERALL INDIVIDUAL RESULTS:'' \<and>
      (\<forall>l \<in> set (h # ls). \<exists>body. l = body @ [CR, LF])"
proof -
  let ?E = "example_env (PList [PDict [(''name'', PStr ''X'')]])"
  have cstr: "container_str ?E = (\<lambda>v. ''[]'')" by (simp add: example_env_def)
  from example_written obtain b where
    b: "Written ''out'' ''TPVirtual-Results-Event88000-Pen1-20261104_175309.csv'' b
        \<in> set (snd (json_to_csv ?E ''in.json'' ''out''))"
    by blast
  from line_terminators [OF b] b show ?thesis
    unfolding cstr by blast
qed

text \<open>
  Claim C10. On a root list the test for the results key is element membership. A list
  without the element \<^verbatim>\<open>"results"\<close> is itself the record list, with the default event key
  and pen. A list with that element takes the first branch, where the subscript raises
  \<^verbatim>\<open>TypeError\<close>: the converter raises it after loading the document, and the entry point
  ends with it uncaught.
\<close>

theorem results_in_root_list:
  "py_contains ''results'' (PList xs) = Inr (PStr ''results'' \<in> set xs) \<and>
   (PStr ''results'' \<notin> set xs \<longrightarrow>
      locate_results (PList xs) = Inr (PList xs, PStr ''88000'', PStr ''1'')) \<and>
   (PStr ''results'' \<in> set xs \<longrightarrow>
      locate_results (PList xs) = Inl TypeError \<and>
      (load_json E p = Inr (PList xs) \<longrightarrow>
         json_to_csv E p out = (Raised TypeError, [LoadJson p]) \<and>
         (path_exists E p \<longrightarrow>
            main E [prog, p, out] = (Uncaught TypeError, [PathExists p, LoadJson p]))))"
  by (simp add: locate_results_list locate_results_list_fails json_to_csv_def main_def)

theorem results_in_root_list_witness:
  "locate_results (PList [PStr ''results'', PDict [(''name'', PStr ''X'')]]) = Inl TypeError \<and>
   main (example_env (PList [PStr ''results'', PDict [(''name'', PStr ''X'')]]))
     [''json_to_csv.py'', ''in.json'', ''out''] =
     (Uncaught TypeError, [PathExists ''in.json'', LoadJson ''in.json'']) \<and>
   locate_results (PList [PStr ''result'', PDict [(''name'', PStr ''X'')]]) =
     Inr (PList [PStr ''result'', PDict [(''name'', PStr ''X'')]], PStr ''88000'', PStr ''1'')"
proof -
  let ?xs = "[PStr ''results'', PDict [(''name'', PStr ''X'')]]"
  have "load_json (example_env (PList ?xs)) ''in.json'' = Inr (PList ?xs)"
    and "path_exists (example_env (PList ?xs)) ''in.json''"
    by (simp_all add: example_env_def)
  then show ?thesis
    using results_in_root_list [of ?xs "example_env (PList ?xs)" "''in.json''" "''out''"
        "''json_to_csv.py''"]
      results_in_root_list [of "[PStr ''result'', PDict [(''name'', PStr ''X'')]]"
        "example_env PNone" "''in.json''" "''out''" "''json_to_csv.py''"]
    by simp
qed

section \<open>The name of the output file\<close>

lemma strftime_digits:
  assumes "dt_year t < 10000" and "dt_month t < 100" and "dt_day t < 100"
    and "dt_hour t < 100" and "dt_minute t < 100" and "dt_second t < 100"
  shows "strftime t =
     [digit_char (dt_year t div 1000), digit_char (dt_year t div 100 mod 10),
      digit_char (dt_year t div 10 mod 10), digit_char (dt_year t mod 10),
      digit_char (dt_month t div 10), digit_char (dt_month t mod 10),
      digit_char (dt_day t div 10), digit_char (dt_day t mod 10),
      CHR ''_'',
      digit_char (dt_hour t div 10), digit_char (dt_hour t mod 10),
      digit_char (dt_minute t div 10), digit_char (dt_minute t mod 10),
      digit_char (dt_second t div 10), digit_char (dt_second t mod 10)]"
  unfolding strftime_def zero_pad_four [OF assms(1)] zero_pad_two [OF assms(2)]
    zero_pad_two [OF assms(3)] zero_pad_two [OF assms(4)] zero_pad_two [OF assms(5)]
    zero_pad_two [OF assms(6)]
  by simp

text \<open>
  Claim C7. Whenever the converter writes a file, the file is in the output folder and
  its name is TPVirtual-Results-Event, the printed event key, -Pen, the printed pen, a
  hyphen, the time stamp and .csv, where event key and pen are the values located in
  the loaded document. The time stamp of a calendar time with
  a four-digit year is the fifteen characters YYYYMMDD_HHMMSS: year, month, day, an
  underscore, hour, minute and second, each component in decimal with leading zeros.
\<close>

theorem output_file_name:
  "(\<forall>f n b. Written f n b \<in> set (snd (json_to_csv E p out)) \<longrightarrow>
      (\<exists>data results ek pen.
         load_json E p = Inr data \<and> locate_results data = Inr (results, ek, pen) \<and>
         f = out \<and>
         n = ''TPVirtual-Results-Event'' @ py_str (container_str E) ek @ ''-Pen'' @
             py_str (container_str E) pen @ ''-'' @ strftime (now E) @ ''.csv'')) \<and>
   (1000 \<le> dt_year t \<and> dt_year t < 10000 \<and> 1 \<le> dt_month t \<and> dt_month t \<le> 12 \<and>
    1 \<le> dt_day t \<and> dt_day t \<le> 31 \<and> dt_hour t < 24 \<and> dt_minute t < 60 \<and>
    dt_second t < 60 \<longrightarrow>
      strftime t =
        [digit_char (dt_year t div 1000), digit_char (dt_year t div 100 mod 10),
         digit_char (dt_year t div 10 mod 10), digit_char (dt_year t mod 10),
         digit_char (dt_month t div 10), digit_char (dt_month t mod 10),
         digit_char (dt_day t div 10), digit_char (dt_day t mod 10),
         CHR ''_'',
         digit_char (dt_hour t div 10), digit_char (dt_hour t mod 10),
         digit_char (dt_minute t div 10), digit_char (dt_minute t mod 10),
         digit_char (dt_second t div 10), digit_char (dt_second t mod 10)])"
proof -
  have a: "\<exists>data results ek pen.
         load_json E p = Inr data \<and> locate_results data = Inr (results, ek, pen) \<and>
         f = out \<and>
         n = ''TPVirtual-Results-Event'' @ py_str (container_str E) ek @ ''-Pen'' @
             py_str (container_str E) pen @ ''-'' @ strftime (now E) @ ''.csv''"
    if "Written f n b \<in> set (snd (json_to_csv E p out))" for f n b
    using json_to_csv_written [OF that] unfolding output_name_def by blast
  have b: "strftime t =
        [digit_char (dt_year t div 1000), digit_char (dt_year t div 100 mod 10),
         digit_char (dt_year t div 10 mod 10), digit_char (dt_year t mod 10),
         digit_char (dt_month t div 10), digit_char (dt_month t mod 10),
         digit_char (dt_day t div 10), digit_char (dt_day t mod 10),
         CHR ''_'',
         digit_char (dt_hour t div 10), digit_char (dt_hour t mod 10),
         digit_char (dt_minute t div 10), digit_char (dt_minute t mod 10),
         digit_char (dt_second t div 10), digit_char (dt_second t mod 10)]"
    if "dt_year t < 10000" "dt_month t \<le> 12" "dt_day t \<le> 31" "dt_hour t < 24"
      "dt_minute t < 60" "dt_second t < 60"
    using that by (intro strftime_digits) simp_all
  from a b show ?thesis by blast
qed

theorem output_file_name_witness:
  "(\<exists>b. Written ''out'' ''TPVirtual-Results-Event88022-Pen3-20261104_175309.csv'' b
      \<in> set (snd (json_to_csv
          (example_env (PDict [(''event_key'', PInt 88022), (''pen'', PInt 3),
             (''results'', PList [PDict [(''position'', PInt 1), (''name'', PStr ''A. Runner'')]])]))
          ''in.json'' ''out''))) \<and>
   strftime \<lparr>dt_year = 2026, dt_month = 11, dt_day = 4,
             dt_hour = 17, dt_minute = 53, dt_second = 9\<rparr> = ''20261104_175309''"
proof -
  let ?rs = "PList [PDict [(''position'', PInt 1), (''name'', PStr ''A. Runner'')]]"
  let ?doc = "PDict [(''event_key'', PInt 88022), (''pen'', PInt 3), (''results'', ?rs)]"
  let ?E = "example_env ?doc"
  let ?t = "\<lparr>dt_year = 2026, dt_month = 11, dt_day = 4,
             dt_hour = 17, dt_minute = 53, dt_second = 9\<rparr>"
  note inst = output_file_name [of ?E "''in.json''" "''out''" ?t]
  have now: "now ?E = ?t" and cstr: "container_str ?E = (\<lambda>v. ''[]'')"
    by (simp_all add: example_env_def)
  have stamp: "strftime ?t = ''20261104_175309''"
    using inst by (simp add: digit_char_def)
  have h1: "load_json ?E ''in.json'' = Inr ?doc"
    by (simp add: example_env_def)
  have h2: "locate_results ?doc = Inr (?rs, PInt 88022, PInt 3)"
    by (simp add: locate_results_key dget_def)
  have h3: "truthy ?rs" by simp
  have h4: "mkdir_error ?E ''out'' = None"
    by (simp add: example_env_def)
  have h5: "open_error ?E ''out''
      (output_name (container_str ?E) (PInt 88022) (PInt 3) (strftime (now ?E))) = None"
    by (simp add: example_env_def)
  obtain ws err where
    ws: "write_csv (container_str ?E) (PInt 88022) (PInt 3) ?rs = (ws, err)"
    by (cases "write_csv (container_str ?E) (PInt 88022) (PInt 3) ?rs")
  let ?n = "output_name (container_str ?E) (PInt 88022) (PInt 3) (strftime (now ?E))"
  have w: "Written ''out'' ?n (utf8_sig ws) \<in> set (snd (json_to_csv ?E ''in.json'' ''out''))"
    by (rule json_to_csv_writes [OF h1 h2 h3 h4 h5 ws])
  with inst obtain data results ek pen where
    d: "load_json ?E ''in.json'' = Inr data" "locate_results data = Inr (results, ek, pen)"
      "?n = ''TPVirtual-Results-Event'' @ py_str (container_str ?E) ek @ ''-Pen'' @
             py_str (container_str ?E) pen @ ''-'' @ strftime (now ?E) @ ''.csv''"
    by blast
  from d(1) h1 have "data = ?doc" by simp
  with d(2) h2 have "ek = PInt 88022" "pen = PInt 3" by simp_all
  with d(3) have "?n = ''TPVirtual-Results-Event'' @ dec_int 88022 @ ''-Pen'' @ dec_int 3 @
      ''-'' @ strftime ?t @ ''.csv''"
    unfolding now by simp
  also have "\<dots> = ''TPVirtual-Results-Event88022-Pen3-20261104_175309.csv''"
    unfolding stamp by (simp add: dec_int_def dec_nat_small dec_nat_large digit_char_def)
  finally have "?n = ''TPVirtual-Results-Event88022-Pen3-20261104_175309.csv''" .
  with w stamp show ?thesis by auto
qed

section \<open>Quoting\<close>

text \<open>
  Claim C6, amended. The writer quotes by the type of the value, not by how the value
  looks. A value that is not a number for the interpreter (a text, also one made of
  digits; \<^verbatim>\<open>None\<close>; a list; a mapping) is written between double quotes, the double
  quotes inside it doubled, and \<^verbatim>\<open>None\<close> as the quoted empty text. An integer is written
  as its decimal text without quotes, a boolean as True or False without quotes, a float
  as its text without quotes. The data row of a record is the fields of its row in
  order, separated by commas and ended by carriage return and line feed.
\<close>

theorem quoting_by_type:
  "(\<not> is_number v \<longrightarrow> csv_field cstr v = DQ # double_quotes (field_text cstr v) @ [DQ]) \<and>
   csv_field cstr (PStr s) = DQ # double_quotes s @ [DQ] \<and>
   csv_field cstr PNone = [DQ, DQ] \<and>
   csv_field cstr (PInt i) = dec_int i \<and>
   csv_field cstr (PBool b) = (if b then ''True'' else ''False'') \<and>
   (\<not> list_ex csv_special r \<longrightarrow> csv_field cstr (PFloat r) = r) \<and>
   (make_row ek pen result = Inr row \<longrightarrow>
      row_text cstr ek pen result =
        Inr (join_fields (map (\<lambda>kv. csv_field cstr (snd kv)) row) @ [CR, LF])) \<and>
   join_fields (f # g # fs) = f @ '','' @ join_fields (g # fs)"
proof -
  have int: "csv_field cstr (PInt i) = dec_int i"
    using dec_int_not_special [of i] by (simp add: csv_field_def field_quoted_def)
  have bool: "csv_field cstr (PBool b) = (if b then ''True'' else ''False'')"
    by (simp add: csv_field_def field_quoted_def csv_special_def DQ_def CR_def LF_def)
  show ?thesis
    using int bool row_text_fields
    by (simp add: csv_field_def field_quoted_def)
qed

theorem quoting_by_type_witness:
  \<open>csv_field (container_str (example_env PNone)) (PStr ''say "hi", ok'') = ''"say ""hi"", ok"'' \<and>
   csv_field (container_str (example_env PNone)) (PFloat ''32417.966'') = ''32417.966'' \<and>
   row_text (container_str (example_env PNone)) (PInt 88022) (PInt 3)
       (PDict [(''position'', PInt 1), (''name'', PStr ''A. Runner''), (''team'', PNone),
               (''time'', PFloat ''12.5''), (''points'', PBool True)]) =
     Inr (''88022,3,1,"A. Runner","","",12.5,0,32417.966,0,True,"","","","","","","","","",""''
          @ [CR, LF])\<close>
proof -
  let ?c = "container_str (example_env PNone)"
  let ?r = "[(''position'', PInt 1), (''name'', PStr ''A. Runner''), (''team'', PNone),
               (''time'', PFloat ''12.5''), (''points'', PBool True)]"
  note inst = quoting_by_type [of \<open>PStr ''say "hi", ok''\<close> ?c \<open>''say "hi", ok''\<close> 0 True
      "''32417.966''" "PInt 88022" "PInt 3" "PDict ?r"]
  have special: "\<not> list_ex csv_special ''32417.966''" "\<not> list_ex csv_special ''12.5''"
    by (simp_all add: csv_special_def DQ_def CR_def LF_def)
  have a: \<open>csv_field ?c (PStr ''say "hi", ok'') = ''"say ""hi"", ok"''\<close>
    using inst by (simp add: DQ_def)
  have b: "csv_field ?c (PFloat ''32417.966'') = ''32417.966''"
    using inst special by simp
  have ints: "dec_int 88022 = ''88022''" "dec_int 3 = ''3''" "dec_int 1 = ''1''"
    "dec_int 0 = ''0''"
    by (simp_all add: dec_int_def dec_nat_small dec_nat_large digit_char_def)
  have c: \<open>row_text ?c (PInt 88022) (PInt 3) (PDict ?r) =
     Inr (''88022,3,1,"A. Runner","","",12.5,0,32417.966,0,True,"","","","","","","","","",""''
          @ [CR, LF])\<close>
    using inst
      quoting_by_type [of PNone ?c "[]" 88022 True "''12.5''"]
      quoting_by_type [of PNone ?c "''A. Runner''" 3 True "''32417.966''"]
      quoting_by_type [of PNone ?c "[]" 1 True "''32417.966''"]
      quoting_by_type [of PNone ?c "[]" 0 True "''32417.966''"]
      special
    by (simp add: dget_def ints DQ_def)
  from a b c show ?thesis by simp
qed

text \<open>
  The claim as first stated has numeric-looking values written without quotes. A bare
  list of records takes the default event key \<^verbatim>\<open>'88000'\<close> and pen \<^verbatim>\<open>'1'\<close>, which are
  texts: they are written quoted, and so is a position given as the text \<^verbatim>\<open>"12"\<close>.
\<close>

theorem numeric_text_quoted:
  \<open>locate_results (PList [PDict [(''name'', PStr ''X''), (''position'', PStr ''12'')]]) =
     Inr (PList [PDict [(''name'', PStr ''X''), (''position'', PStr ''12'')]],
          PStr ''88000'', PStr ''1'') \<and>
   row_text (container_str (example_env PNone)) (PStr ''88000'') (PStr ''1'')
       (PDict [(''name'', PStr ''X''), (''position'', PStr ''12'')]) =
     Inr (''"88000","1","12","X","","",0,0,32417.966,0,0,"","","","","","","","","",""''
          @ [CR, LF]) \<and>
   csv_field (container_str (example_env PNone)) (PStr ''88000'') \<noteq> ''88000''\<close>
proof -
  have ints: "dec_int 0 = ''0''"
    by (simp add: dec_int_def dec_nat_small digit_char_def)
  have a: \<open>row_text (container_str (example_env PNone)) (PStr ''88000'') (PStr ''1'')
       (PDict [(''name'', PStr ''X''), (''position'', PStr ''12'')]) =
     Inr (''"88000","1","12","X","","",0,0,32417.966,0,0,"","","","","","","","","",""''
          @ [CR, LF])\<close>
    by (simp add: row_text_def dictwriter_writerow_def fieldnames_def csv_writerow_def
        csv_field_def field_quoted_def dget_def csv_special_def ints DQ_def CR_def LF_def)
  have b: "csv_field (container_str (example_env PNone)) (PStr ''88000'') \<noteq> ''88000''"
    by (simp add: csv_field_def field_quoted_def DQ_def)
  from a b show ?thesis
    by (simp add: locate_results_list)
qed

end
